theory Spec2Isabelle
  imports Main
begin

section \<open>Python strings, values and exceptions\<close>



fun startswith :: "string \<Rightarrow> string \<Rightarrow> bool" where
  \<comment> \<open>\<^verbatim>\<open>s.startswith(p)\<close>, written \<open>startswith p s\<close>\<close>
  "startswith [] s = True"
| "startswith (p # ps) [] = False"
| "startswith (p # ps) (c # cs) = (p = c \<and> startswith ps cs)"

definition endswith :: "string \<Rightarrow> string \<Rightarrow> bool" where
  \<comment> \<open>\<^verbatim>\<open>s.endswith(p)\<close>, written \<open>endswith p s\<close>\<close>
  "endswith p s = startswith (rev p) (rev s)"

text \<open>
  The UTF-8 sequences of the characters that \<^verbatim>\<open>str.strip()\<close> removes: U+0009 to U+000D,
  U+001C to U+0020, U+0085, U+00A0, U+1680, U+2000 to U+200A, U+2028, U+2029, U+202F,
  U+205F and U+3000.
\<close>

definition white_space :: "string list" where
  "white_space = [
     [CHR 0x09], [CHR 0x0A], [CHR 0x0B],
     [CHR 0x0C], [CHR 0x0D], [CHR 0x1C],
     [CHR 0x1D], [CHR 0x1E], [CHR 0x1F],
     [CHR 0x20], [CHR 0xC2, CHR 0x85], [CHR 0xC2, CHR 0xA0],
     [CHR 0xE1, CHR 0x9A, CHR 0x80], [CHR 0xE2, CHR 0x80, CHR 0x80], [CHR 0xE2, CHR 0x80, CHR 0x81],
     [CHR 0xE2, CHR 0x80, CHR 0x82], [CHR 0xE2, CHR 0x80, CHR 0x83], [CHR 0xE2, CHR 0x80, CHR 0x84],
     [CHR 0xE2, CHR 0x80, CHR 0x85], [CHR 0xE2, CHR 0x80, CHR 0x86], [CHR 0xE2, CHR 0x80, CHR 0x87],
     [CHR 0xE2, CHR 0x80, CHR 0x88], [CHR 0xE2, CHR 0x80, CHR 0x89], [CHR 0xE2, CHR 0x80, CHR 0x8A],
     [CHR 0xE2, CHR 0x80, CHR 0xA8], [CHR 0xE2, CHR 0x80, CHR 0xA9], [CHR 0xE2, CHR 0x80, CHR 0xAF],
     [CHR 0xE2, CHR 0x81, CHR 0x9F], [CHR 0xE3, CHR 0x80, CHR 0x80]]"

definition lspace :: "string \<Rightarrow> nat" where
  \<comment> \<open>the number of bytes of the white-space character the string starts with, or 0\<close>
  "lspace s = (case find (\<lambda>p. startswith p s) white_space of None \<Rightarrow> 0 | Some p \<Rightarrow> length p)"

definition rspace :: "string \<Rightarrow> nat" where
  \<comment> \<open>the number of bytes of the white-space character the string ends with, or 0\<close>
  "rspace s = (case find (\<lambda>p. endswith p s) white_space of None \<Rightarrow> 0 | Some p \<Rightarrow> length p)"

function lstrip :: "string \<Rightarrow> string" where
  \<comment> \<open>\<^verbatim>\<open>s.lstrip()\<close>\<close>
  "lstrip s = (if lspace s = 0 then s else lstrip (drop (lspace s) s))"
  by pat_completeness auto
termination
proof (relation "measure length")
  show "wf (measure length)" by simp
next
  fix s :: string
  assume n: "lspace s \<noteq> 0"
  then obtain p where f: "find (\<lambda>p. startswith p s) white_space = Some p" and l: "lspace s = length p"
    by (auto simp: lspace_def split: option.splits)
  have "length q \<le> length t" if "startswith q t" for q t
    using that by (induction q t rule: startswith.induct) simp_all
  moreover from f have "startswith p s" by (auto simp: find_Some_iff)
  ultimately have "length p \<le> length s" by blast
  with n l have "length s - lspace s < length s" by arith
  then show "(drop (lspace s) s, s) \<in> measure length" by simp
qed

function rstrip :: "string \<Rightarrow> string" where
  \<comment> \<open>\<^verbatim>\<open>s.rstrip()\<close>\<close>
  "rstrip s = (if rspace s = 0 then s else rstrip (take (length s - rspace s) s))"
  by pat_completeness auto
termination
proof (relation "measure length")
  show "wf (measure length)" by simp
next
  fix s :: string
  assume n: "rspace s \<noteq> 0"
  then obtain p where f: "find (\<lambda>p. endswith p s) white_space = Some p" and l: "rspace s = length p"
    by (auto simp: rspace_def split: option.splits)
  have "length q \<le> length t" if "startswith q t" for q t
    using that by (induction q t rule: startswith.induct) simp_all
  moreover from f have "startswith (rev p) (rev s)" by (auto simp: find_Some_iff endswith_def)
  ultimately have "length (rev p) \<le> length (rev s)" by blast
  then have "length p \<le> length s" by simp
  with n l have "length s - rspace s < length s" by arith
  then show "(take (length s - rspace s) s, s) \<in> measure length" by simp
qed

declare lstrip.simps [simp del] rstrip.simps [simp del]

definition strip :: "string \<Rightarrow> string" where
  \<comment> \<open>\<^verbatim>\<open>s.strip()\<close>\<close>
  "strip s = rstrip (lstrip s)"

definition seq_len :: "char \<Rightarrow> nat" where
  \<comment> \<open>the number of bytes of the UTF-8 sequence that a byte starts\<close>
  "seq_len c = (let b = (of_char c :: int) in
     if b < 0xC0 then 1 else if b < 0xE0 then 2 else if b < 0xF0 then 3
     else if b < 0xF8 then 4 else 1)"

fun chunks :: "string \<Rightarrow> string list" where
  \<comment> \<open>the string cut into the byte sequences of its code points\<close>
  "chunks [] = []"
| "chunks (c # cs) = (c # take (seq_len c - 1) cs) # chunks (drop (seq_len c - 1) cs)"

definition no_code_point :: int where
  "no_code_point = 0x110000"

fun code_point :: "string \<Rightarrow> int" where
  \<comment> \<open>the code point of one UTF-8 sequence; bytes that are no sequence have none\<close>
  "code_point [a] = (if (of_char a :: int) < 0x80 then of_char a else no_code_point)"
| "code_point [a, b] = ((of_char a - 0xC0) * 0x40 + of_char b mod 0x40)"
| "code_point [a, b, c] = ((of_char a - 0xE0) * 0x1000 + (of_char b mod 0x40) * 0x40 + of_char c mod 0x40)"
| "code_point [a, b, c, d] =
     ((of_char a - 0xF0) * 0x40000 + (of_char b mod 0x40) * 0x1000 + (of_char c mod 0x40) * 0x40
      + of_char d mod 0x40)"
| "code_point bs = no_code_point"

definition utf8 :: "int \<Rightarrow> string" where
  \<comment> \<open>the UTF-8 sequence of a code point\<close>
  "utf8 n =
     (if n < 0x80 then [char_of n]
      else if n < 0x800 then [char_of (0xC0 + n div 0x40), char_of (0x80 + n mod 0x40)]
      else if n < 0x10000 then
        [char_of (0xE0 + n div 0x1000), char_of (0x80 + n div 0x40 mod 0x40),
         char_of (0x80 + n mod 0x40)]
      else
        [char_of (0xF0 + n div 0x40000), char_of (0x80 + n div 0x1000 mod 0x40),
         char_of (0x80 + n div 0x40 mod 0x40), char_of (0x80 + n mod 0x40)])"

text \<open>
  The tables of \<^verbatim>\<open>str.lower()\<close>. An entry \<open>(lo, k, step, to)\<close> of \<open>lower_table\<close> says
  that the \<open>k\<close> code points \<open>lo\<close>, \<open>lo + step\<close>, ... have the lower-case letters \<open>to\<close>,
  \<open>to + step\<close>, ...; the entries are in ascending order. \<open>case_ignorable_ranges\<close> are
  the code points the interpreter skips when it looks for the letters around a capital
  sigma, and \<open>cased_ranges\<close> are the cased code points among the others; both are lists of
  closed intervals in ascending order.
\<close>

definition lower_table :: "(int \<times> int \<times> int \<times> int) list" where
  "lower_table = [
     (0x41, 26, 1, 0x61), (0xC0, 23, 1, 0xE0), (0xD8, 7, 1, 0xF8),
     (0x100, 24, 2, 0x101), (0x132, 3, 2, 0x133), (0x139, 8, 2, 0x13A),
     (0x14A, 23, 2, 0x14B), (0x178, 1, 1, 0xFF), (0x179, 3, 2, 0x17A),
     (0x181, 1, 1, 0x253), (0x182, 2, 2, 0x183), (0x186, 1, 1, 0x254),
     (0x187, 1, 1, 0x188), (0x189, 2, 1, 0x256), (0x18B, 1, 1, 0x18C),
     (0x18E, 1, 1, 0x1DD), (0x18F, 1, 1, 0x259), (0x190, 1, 1, 0x25B),
     (0x191, 1, 1, 0x192), (0x193, 1, 1, 0x260), (0x194, 1, 1, 0x263),
     (0x196, 1, 1, 0x269), (0x197, 1, 1, 0x268), (0x198, 1, 1, 0x199),
     (0x19C, 1, 1, 0x26F), (0x19D, 1, 1, 0x272), (0x19F, 1, 1, 0x275),
     (0x1A0, 3, 2, 0x1A1), (0x1A6, 1, 1, 0x280), (0x1A7, 1, 1, 0x1A8),
     (0x1A9, 1, 1, 0x283), (0x1AC, 1, 1, 0x1AD), (0x1AE, 1, 1, 0x288),
     (0x1AF, 1, 1, 0x1B0), (0x1B1, 2, 1, 0x28A), (0x1B3, 2, 2, 0x1B4),
     (0x1B7, 1, 1, 0x292), (0x1B8, 1, 1, 0x1B9), (0x1BC, 1, 1, 0x1BD),
     (0x1C4, 1, 1, 0x1C6), (0x1C5, 1, 1, 0x1C6), (0x1C7, 1, 1, 0x1C9),
     (0x1C8, 1, 1, 0x1C9), (0x1CA, 1, 1, 0x1CC), (0x1CB, 9, 2, 0x1CC),
     (0x1DE, 9, 2, 0x1DF), (0x1F1, 1, 1, 0x1F3), (0x1F2, 2, 2, 0x1F3),
     (0x1F6, 1, 1, 0x195), (0x1F7, 1, 1, 0x1BF), (0x1F8, 20, 2, 0x1F9),
     (0x220, 1, 1, 0x19E), (0x222, 9, 2, 0x223), (0x23A, 1, 1, 0x2C65),
     (0x23B, 1, 1, 0x23C), (0x23D, 1, 1, 0x19A), (0x23E, 1, 1, 0x2C66),
     (0x241, 1, 1, 0x242), (0x243, 1, 1, 0x180), (0x244, 1, 1, 0x289),
     (0x245, 1, 1, 0x28C), (0x246, 5, 2, 0x247), (0x370, 2, 2, 0x371),
     (0x376, 1, 1, 0x377), (0x37F, 1, 1, 0x3F3), (0x386, 1, 1, 0x3AC),
     (0x388, 3, 1, 0x3AD), (0x38C, 1, 1, 0x3CC), (0x38E, 2, 1, 0x3CD),
     (0x391, 17, 1, 0x3B1), (0x3A4, 8, 1, 0x3C4), (0x3CF, 1, 1, 0x3D7),
     (0x3D8, 12, 2, 0x3D9), (0x3F4, 1, 1, 0x3B8), (0x3F7, 1, 1, 0x3F8),
     (0x3F9, 1, 1, 0x3F2), (0x3FA, 1, 1, 0x3FB), (0x3FD, 3, 1, 0x37B),
     (0x400, 16, 1, 0x450), (0x410, 32, 1, 0x430), (0x460, 17, 2, 0x461),
     (0x48A, 27, 2, 0x48B), (0x4C0, 1, 1, 0x4CF), (0x4C1, 7, 2, 0x4C2),
     (0x4D0, 48, 2, 0x4D1), (0x531, 38, 1, 0x561), (0x10A0, 38, 1, 0x2D00),
     (0x10C7, 1, 1, 0x2D27), (0x10CD, 1, 1, 0x2D2D), (0x13A0, 80, 1, 0xAB70),
     (0x13F0, 6, 1, 0x13F8), (0x1C90, 43, 1, 0x10D0), (0x1CBD, 3, 1, 0x10FD),
     (0x1E00, 75, 2, 0x1E01), (0x1E9E, 1, 1, 0xDF), (0x1EA0, 48, 2, 0x1EA1),
     (0x1F08, 8, 1, 0x1F00), (0x1F18, 6, 1, 0x1F10), (0x1F28, 8, 1, 0x1F20),
     (0x1F38, 8, 1, 0x1F30), (0x1F48, 6, 1, 0x1F40), (0x1F59, 4, 2, 0x1F51),
     (0x1F68, 8, 1, 0x1F60), (0x1F88, 8, 1, 0x1F80), (0x1F98, 8, 1, 0x1F90),
     (0x1FA8, 8, 1, 0x1FA0), (0x1FB8, 2, 1, 0x1FB0), (0x1FBA, 2, 1, 0x1F70),
     (0x1FBC, 1, 1, 0x1FB3), (0x1FC8, 4, 1, 0x1F72), (0x1FCC, 1, 1, 0x1FC3),
     (0x1FD8, 2, 1, 0x1FD0), (0x1FDA, 2, 1, 0x1F76), (0x1FE8, 2, 1, 0x1FE0),
     (0x1FEA, 2, 1, 0x1F7A), (0x1FEC, 1, 1, 0x1FE5), (0x1FF8, 2, 1, 0x1F78),
     (0x1FFA, 2, 1, 0x1F7C), (0x1FFC, 1, 1, 0x1FF3), (0x2126, 1, 1, 0x3C9),
     (0x212A, 1, 1, 0x6B), (0x212B, 1, 1, 0xE5), (0x2132, 1, 1, 0x214E),
     (0x2160, 16, 1, 0x2170), (0x2183, 1, 1, 0x2184), (0x24B6, 26, 1, 0x24D0),
     (0x2C00, 48, 1, 0x2C30), (0x2C60, 1, 1, 0x2C61), (0x2C62, 1, 1, 0x26B),
     (0x2C63, 1, 1, 0x1D7D), (0x2C64, 1, 1, 0x27D), (0x2C67, 3, 2, 0x2C68),
     (0x2C6D, 1, 1, 0x251), (0x2C6E, 1, 1, 0x271), (0x2C6F, 1, 1, 0x250),
     (0x2C70, 1, 1, 0x252), (0x2C72, 1, 1, 0x2C73), (0x2C75, 1, 1, 0x2C76),
     (0x2C7E, 2, 1, 0x23F), (0x2C80, 50, 2, 0x2C81), (0x2CEB, 2, 2, 0x2CEC),
     (0x2CF2, 1, 1, 0x2CF3), (0xA640, 23, 2, 0xA641), (0xA680, 14, 2, 0xA681),
     (0xA722, 7, 2, 0xA723), (0xA732, 31, 2, 0xA733), (0xA779, 2, 2, 0xA77A),
     (0xA77D, 1, 1, 0x1D79), (0xA77E, 5, 2, 0xA77F), (0xA78B, 1, 1, 0xA78C),
     (0xA78D, 1, 1, 0x265), (0xA790, 2, 2, 0xA791), (0xA796, 10, 2, 0xA797),
     (0xA7AA, 1, 1, 0x266), (0xA7AB, 1, 1, 0x25C), (0xA7AC, 1, 1, 0x261),
     (0xA7AD, 1, 1, 0x26C), (0xA7AE, 1, 1, 0x26A), (0xA7B0, 1, 1, 0x29E),
     (0xA7B1, 1, 1, 0x287), (0xA7B2, 1, 1, 0x29D), (0xA7B3, 1, 1, 0xAB53),
     (0xA7B4, 8, 2, 0xA7B5), (0xA7C4, 1, 1, 0xA794), (0xA7C5, 1, 1, 0x282),
     (0xA7C6, 1, 1, 0x1D8E), (0xA7C7, 2, 2, 0xA7C8), (0xA7D0, 1, 1, 0xA7D1),
     (0xA7D6, 2, 2, 0xA7D7), (0xA7F5, 1, 1, 0xA7F6), (0xFF21, 26, 1, 0xFF41),
     (0x10400, 40, 1, 0x10428), (0x104B0, 36, 1, 0x104D8), (0x10570, 11, 1, 0x10597),
     (0x1057C, 15, 1, 0x105A3), (0x1058C, 7, 1, 0x105B3), (0x10594, 2, 1, 0x105BB),
     (0x10C80, 51, 1, 0x10CC0), (0x118A0, 32, 1, 0x118C0), (0x16E40, 32, 1, 0x16E60),
     (0x1E900, 34, 1, 0x1E922)]"

definition cased_ranges :: "(int \<times> int) list" where
  "cased_ranges = [
     (0x41, 0x5A), (0x61, 0x7A), (0xAA, 0xAA), (0xB5, 0xB5), (0xBA, 0xBA),
     (0xC0, 0xD6), (0xD8, 0xF6), (0xF8, 0x1BA), (0x1BC, 0x1BF), (0x1C4, 0x293),
     (0x295, 0x2AF), (0x370, 0x373), (0x376, 0x377), (0x37B, 0x37D), (0x37F, 0x37F),
     (0x386, 0x386), (0x388, 0x38A), (0x38C, 0x38C), (0x38E, 0x3A1), (0x3A3, 0x3F5),
     (0x3F7, 0x481), (0x48A, 0x52F), (0x531, 0x556), (0x560, 0x588), (0x10A0, 0x10C5),
     (0x10C7, 0x10C7), (0x10CD, 0x10CD), (0x10D0, 0x10FA), (0x10FD, 0x10FF), (0x13A0, 0x13F5),
     (0x13F8, 0x13FD), (0x1C80, 0x1C88), (0x1C90, 0x1CBA), (0x1CBD, 0x1CBF), (0x1D00, 0x1D2B),
     (0x1D6B, 0x1D77), (0x1D79, 0x1D9A), (0x1E00, 0x1F15), (0x1F18, 0x1F1D), (0x1F20, 0x1F45),
     (0x1F48, 0x1F4D), (0x1F50, 0x1F57), (0x1F59, 0x1F59), (0x1F5B, 0x1F5B), (0x1F5D, 0x1F5D),
     (0x1F5F, 0x1F7D), (0x1F80, 0x1FB4), (0x1FB6, 0x1FBC), (0x1FBE, 0x1FBE), (0x1FC2, 0x1FC4),
     (0x1FC6, 0x1FCC), (0x1FD0, 0x1FD3), (0x1FD6, 0x1FDB), (0x1FE0, 0x1FEC), (0x1FF2, 0x1FF4),
     (0x1FF6, 0x1FFC), (0x2102, 0x2102), (0x2107, 0x2107), (0x210A, 0x2113), (0x2115, 0x2115),
     (0x2119, 0x211D), (0x2124, 0x2124), (0x2126, 0x2126), (0x2128, 0x2128), (0x212A, 0x212D),
     (0x212F, 0x2134), (0x2139, 0x2139), (0x213C, 0x213F), (0x2145, 0x2149), (0x214E, 0x214E),
     (0x2160, 0x217F), (0x2183, 0x2184), (0x24B6, 0x24E9), (0x2C00, 0x2C7B), (0x2C7E, 0x2CE4),
     (0x2CEB, 0x2CEE), (0x2CF2, 0x2CF3), (0x2D00, 0x2D25), (0x2D27, 0x2D27), (0x2D2D, 0x2D2D),
     (0xA640, 0xA66D), (0xA680, 0xA69B), (0xA722, 0xA76F), (0xA771, 0xA787), (0xA78B, 0xA78E),
     (0xA790, 0xA7CA), (0xA7D0, 0xA7D1), (0xA7D3, 0xA7D3), (0xA7D5, 0xA7D9), (0xA7F5, 0xA7F6),
     (0xA7FA, 0xA7FA), (0xAB30, 0xAB5A), (0xAB60, 0xAB68), (0xAB70, 0xABBF), (0xFB00, 0xFB06),
     (0xFB13, 0xFB17), (0xFF21, 0xFF3A), (0xFF41, 0xFF5A), (0x10400, 0x1044F), (0x104B0, 0x104D3),
     (0x104D8, 0x104FB), (0x10570, 0x1057A), (0x1057C, 0x1058A), (0x1058C, 0x10592), (0x10594, 0x10595),
     (0x10597, 0x105A1), (0x105A3, 0x105B1), (0x105B3, 0x105B9), (0x105BB, 0x105BC), (0x10C80, 0x10CB2),
     (0x10CC0, 0x10CF2), (0x118A0, 0x118DF), (0x16E40, 0x16E7F), (0x1D400, 0x1D454), (0x1D456, 0x1D49C),
     (0x1D49E, 0x1D49F), (0x1D4A2, 0x1D4A2), (0x1D4A5, 0x1D4A6), (0x1D4A9, 0x1D4AC), (0x1D4AE, 0x1D4B9),
     (0x1D4BB, 0x1D4BB), (0x1D4BD, 0x1D4C3), (0x1D4C5, 0x1D505), (0x1D507, 0x1D50A), (0x1D50D, 0x1D514),
     (0x1D516, 0x1D51C), (0x1D51E, 0x1D539), (0x1D53B, 0x1D53E), (0x1D540, 0x1D544), (0x1D546, 0x1D546),
     (0x1D54A, 0x1D550), (0x1D552, 0x1D6A5), (0x1D6A8, 0x1D6C0), (0x1D6C2, 0x1D6DA), (0x1D6DC, 0x1D6FA),
     (0x1D6FC, 0x1D714), (0x1D716, 0x1D734), (0x1D736, 0x1D74E), (0x1D750, 0x1D76E), (0x1D770, 0x1D788),
     (0x1D78A, 0x1D7A8), (0x1D7AA, 0x1D7C2), (0x1D7C4, 0x1D7CB), (0x1DF00, 0x1DF09), (0x1DF0B, 0x1DF1E),
     (0x1E900, 0x1E943), (0x1F130, 0x1F149), (0x1F150, 0x1F169), (0x1F170, 0x1F189)]"

definition case_ignorable_ranges :: "(int \<times> int) list" where
  "case_ignorable_ranges = [
     (0x27, 0x27), (0x2E, 0x2E), (0x3A, 0x3A), (0x5E, 0x5E), (0x60, 0x60),
     (0xA8, 0xA8), (0xAD, 0xAD), (0xAF, 0xAF), (0xB4, 0xB4), (0xB7, 0xB8),
     (0x2B0, 0x36F), (0x374, 0x375), (0x37A, 0x37A), (0x384, 0x385), (0x387, 0x387),
     (0x483, 0x489), (0x559, 0x559), (0x55F, 0x55F), (0x591, 0x5BD), (0x5BF, 0x5BF),
     (0x5C1, 0x5C2), (0x5C4, 0x5C5), (0x5C7, 0x5C7), (0x5F4, 0x5F4), (0x600, 0x605),
     (0x610, 0x61A), (0x61C, 0x61C), (0x640, 0x640), (0x64B, 0x65F), (0x670, 0x670),
     (0x6D6, 0x6DD), (0x6DF, 0x6E8), (0x6EA, 0x6ED), (0x70F, 0x70F), (0x711, 0x711),
     (0x730, 0x74A), (0x7A6, 0x7B0), (0x7EB, 0x7F5), (0x7FA, 0x7FA), (0x7FD, 0x7FD),
     (0x816, 0x82D), (0x859, 0x85B), (0x888, 0x888), (0x890, 0x891), (0x898, 0x89F),
     (0x8C9, 0x902), (0x93A, 0x93A), (0x93C, 0x93C), (0x941, 0x948), (0x94D, 0x94D),
     (0x951, 0x957), (0x962, 0x963), (0x971, 0x971), (0x981, 0x981), (0x9BC, 0x9BC),
     (0x9C1, 0x9C4), (0x9CD, 0x9CD), (0x9E2, 0x9E3), (0x9FE, 0x9FE), (0xA01, 0xA02),
     (0xA3C, 0xA3C), (0xA41, 0xA42), (0xA47, 0xA48), (0xA4B, 0xA4D), (0xA51, 0xA51),
     (0xA70, 0xA71), (0xA75, 0xA75), (0xA81, 0xA82), (0xABC, 0xABC), (0xAC1, 0xAC5),
     (0xAC7, 0xAC8), (0xACD, 0xACD), (0xAE2, 0xAE3), (0xAFA, 0xAFF), (0xB01, 0xB01),
     (0xB3C, 0xB3C), (0xB3F, 0xB3F), (0xB41, 0xB44), (0xB4D, 0xB4D), (0xB55, 0xB56),
     (0xB62, 0xB63), (0xB82, 0xB82), (0xBC0, 0xBC0), (0xBCD, 0xBCD), (0xC00, 0xC00),
     (0xC04, 0xC04), (0xC3C, 0xC3C), (0xC3E, 0xC40), (0xC46, 0xC48), (0xC4A, 0xC4D),
     (0xC55, 0xC56), (0xC62, 0xC63), (0xC81, 0xC81), (0xCBC, 0xCBC), (0xCBF, 0xCBF),
     (0xCC6, 0xCC6), (0xCCC, 0xCCD), (0xCE2, 0xCE3), (0xD00, 0xD01), (0xD3B, 0xD3C),
     (0xD41, 0xD44), (0xD4D, 0xD4D), (0xD62, 0xD63), (0xD81, 0xD81), (0xDCA, 0xDCA),
     (0xDD2, 0xDD4), (0xDD6, 0xDD6), (0xE31, 0xE31), (0xE34, 0xE3A), (0xE46, 0xE4E),
     (0xEB1, 0xEB1), (0xEB4, 0xEBC), (0xEC6, 0xEC6), (0xEC8, 0xECD), (0xF18, 0xF19),
     (0xF35, 0xF35), (0xF37, 0xF37), (0xF39, 0xF39), (0xF71, 0xF7E), (0xF80, 0xF84),
     (0xF86, 0xF87), (0xF8D, 0xF97), (0xF99, 0xFBC), (0xFC6, 0xFC6), (0x102D, 0x1030),
     (0x1032, 0x1037), (0x1039, 0x103A), (0x103D, 0x103E), (0x1058, 0x1059), (0x105E, 0x1060),
     (0x1071, 0x1074), (0x1082, 0x1082), (0x1085, 0x1086), (0x108D, 0x108D), (0x109D, 0x109D),
     (0x10FC, 0x10FC), (0x135D, 0x135F), (0x1712, 0x1714), (0x1732, 0x1733), (0x1752, 0x1753),
     (0x1772, 0x1773), (0x17B4, 0x17B5), (0x17B7, 0x17BD), (0x17C6, 0x17C6), (0x17C9, 0x17D3),
     (0x17D7, 0x17D7), (0x17DD, 0x17DD), (0x180B, 0x180F), (0x1843, 0x1843), (0x1885, 0x1886),
     (0x18A9, 0x18A9), (0x1920, 0x1922), (0x1927, 0x1928), (0x1932, 0x1932), (0x1939, 0x193B),
     (0x1A17, 0x1A18), (0x1A1B, 0x1A1B), (0x1A56, 0x1A56), (0x1A58, 0x1A5E), (0x1A60, 0x1A60),
     (0x1A62, 0x1A62), (0x1A65, 0x1A6C), (0x1A73, 0x1A7C), (0x1A7F, 0x1A7F), (0x1AA7, 0x1AA7),
     (0x1AB0, 0x1ACE), (0x1B00, 0x1B03), (0x1B34, 0x1B34), (0x1B36, 0x1B3A), (0x1B3C, 0x1B3C),
     (0x1B42, 0x1B42), (0x1B6B, 0x1B73), (0x1B80, 0x1B81), (0x1BA2, 0x1BA5), (0x1BA8, 0x1BA9),
     (0x1BAB, 0x1BAD), (0x1BE6, 0x1BE6), (0x1BE8, 0x1BE9), (0x1BED, 0x1BED), (0x1BEF, 0x1BF1),
     (0x1C2C, 0x1C33), (0x1C36, 0x1C37), (0x1C78, 0x1C7D), (0x1CD0, 0x1CD2), (0x1CD4, 0x1CE0),
     (0x1CE2, 0x1CE8), (0x1CED, 0x1CED), (0x1CF4, 0x1CF4), (0x1CF8, 0x1CF9), (0x1D2C, 0x1D6A),
     (0x1D78, 0x1D78), (0x1D9B, 0x1DFF), (0x1FBD, 0x1FBD), (0x1FBF, 0x1FC1), (0x1FCD, 0x1FCF),
     (0x1FDD, 0x1FDF), (0x1FED, 0x1FEF), (0x1FFD, 0x1FFE), (0x200B, 0x200F), (0x2018, 0x2019),
     (0x2024, 0x2024), (0x2027, 0x2027), (0x202A, 0x202E), (0x2060, 0x2064), (0x2066, 0x206F),
     (0x2071, 0x2071), (0x207F, 0x207F), (0x2090, 0x209C), (0x20D0, 0x20F0), (0x2C7C, 0x2C7D),
     (0x2CEF, 0x2CF1), (0x2D6F, 0x2D6F), (0x2D7F, 0x2D7F), (0x2DE0, 0x2DFF), (0x2E2F, 0x2E2F),
     (0x3005, 0x3005), (0x302A, 0x302D), (0x3031, 0x3035), (0x303B, 0x303B), (0x3099, 0x309E),
     (0x30FC, 0x30FE), (0xA015, 0xA015), (0xA4F8, 0xA4FD), (0xA60C, 0xA60C), (0xA66F, 0xA672),
     (0xA674, 0xA67D), (0xA67F, 0xA67F), (0xA69C, 0xA69F), (0xA6F0, 0xA6F1), (0xA700, 0xA721),
     (0xA770, 0xA770), (0xA788, 0xA78A), (0xA7F2, 0xA7F4), (0xA7F8, 0xA7F9), (0xA802, 0xA802),
     (0xA806, 0xA806), (0xA80B, 0xA80B), (0xA825, 0xA826), (0xA82C, 0xA82C), (0xA8C4, 0xA8C5),
     (0xA8E0, 0xA8F1), (0xA8FF, 0xA8FF), (0xA926, 0xA92D), (0xA947, 0xA951), (0xA980, 0xA982),
     (0xA9B3, 0xA9B3), (0xA9B6, 0xA9B9), (0xA9BC, 0xA9BD), (0xA9CF, 0xA9CF), (0xA9E5, 0xA9E6),
     (0xAA29, 0xAA2E), (0xAA31, 0xAA32), (0xAA35, 0xAA36), (0xAA43, 0xAA43), (0xAA4C, 0xAA4C),
     (0xAA70, 0xAA70), (0xAA7C, 0xAA7C), (0xAAB0, 0xAAB0), (0xAAB2, 0xAAB4), (0xAAB7, 0xAAB8),
     (0xAABE, 0xAABF), (0xAAC1, 0xAAC1), (0xAADD, 0xAADD), (0xAAEC, 0xAAED), (0xAAF3, 0xAAF4),
     (0xAAF6, 0xAAF6), (0xAB5B, 0xAB5F), (0xAB69, 0xAB6B), (0xABE5, 0xABE5), (0xABE8, 0xABE8),
     (0xABED, 0xABED), (0xFB1E, 0xFB1E), (0xFBB2, 0xFBC2), (0xFE00, 0xFE0F), (0xFE13, 0xFE13),
     (0xFE20, 0xFE2F), (0xFE52, 0xFE52), (0xFE55, 0xFE55), (0xFEFF, 0xFEFF), (0xFF07, 0xFF07),
     (0xFF0E, 0xFF0E), (0xFF1A, 0xFF1A), (0xFF3E, 0xFF3E), (0xFF40, 0xFF40), (0xFF70, 0xFF70),
     (0xFF9E, 0xFF9F), (0xFFE3, 0xFFE3), (0xFFF9, 0xFFFB), (0x101FD, 0x101FD), (0x102E0, 0x102E0),
     (0x10376, 0x1037A), (0x10780, 0x10785), (0x10787, 0x107B0), (0x107B2, 0x107BA), (0x10A01, 0x10A03),
     (0x10A05, 0x10A06), (0x10A0C, 0x10A0F), (0x10A38, 0x10A3A), (0x10A3F, 0x10A3F), (0x10AE5, 0x10AE6),
     (0x10D24, 0x10D27), (0x10EAB, 0x10EAC), (0x10F46, 0x10F50), (0x10F82, 0x10F85), (0x11001, 0x11001),
     (0x11038, 0x11046), (0x11070, 0x11070), (0x11073, 0x11074), (0x1107F, 0x11081), (0x110B3, 0x110B6),
     (0x110B9, 0x110BA), (0x110BD, 0x110BD), (0x110C2, 0x110C2), (0x110CD, 0x110CD), (0x11100, 0x11102),
     (0x11127, 0x1112B), (0x1112D, 0x11134), (0x11173, 0x11173), (0x11180, 0x11181), (0x111B6, 0x111BE),
     (0x111C9, 0x111CC), (0x111CF, 0x111CF), (0x1122F, 0x11231), (0x11234, 0x11234), (0x11236, 0x11237),
     (0x1123E, 0x1123E), (0x112DF, 0x112DF), (0x112E3, 0x112EA), (0x11300, 0x11301), (0x1133B, 0x1133C),
     (0x11340, 0x11340), (0x11366, 0x1136C), (0x11370, 0x11374), (0x11438, 0x1143F), (0x11442, 0x11444),
     (0x11446, 0x11446), (0x1145E, 0x1145E), (0x114B3, 0x114B8), (0x114BA, 0x114BA), (0x114BF, 0x114C0),
     (0x114C2, 0x114C3), (0x115B2, 0x115B5), (0x115BC, 0x115BD), (0x115BF, 0x115C0), (0x115DC, 0x115DD),
     (0x11633, 0x1163A), (0x1163D, 0x1163D), (0x1163F, 0x11640), (0x116AB, 0x116AB), (0x116AD, 0x116AD),
     (0x116B0, 0x116B5), (0x116B7, 0x116B7), (0x1171D, 0x1171F), (0x11722, 0x11725), (0x11727, 0x1172B),
     (0x1182F, 0x11837), (0x11839, 0x1183A), (0x1193B, 0x1193C), (0x1193E, 0x1193E), (0x11943, 0x11943),
     (0x119D4, 0x119D7), (0x119DA, 0x119DB), (0x119E0, 0x119E0), (0x11A01, 0x11A0A), (0x11A33, 0x11A38),
     (0x11A3B, 0x11A3E), (0x11A47, 0x11A47), (0x11A51, 0x11A56), (0x11A59, 0x11A5B), (0x11A8A, 0x11A96),
     (0x11A98, 0x11A99), (0x11C30, 0x11C36), (0x11C38, 0x11C3D), (0x11C3F, 0x11C3F), (0x11C92, 0x11CA7),
     (0x11CAA, 0x11CB0), (0x11CB2, 0x11CB3), (0x11CB5, 0x11CB6), (0x11D31, 0x11D36), (0x11D3A, 0x11D3A),
     (0x11D3C, 0x11D3D), (0x11D3F, 0x11D45), (0x11D47, 0x11D47), (0x11D90, 0x11D91), (0x11D95, 0x11D95),
     (0x11D97, 0x11D97), (0x11EF3, 0x11EF4), (0x13430, 0x13438), (0x16AF0, 0x16AF4), (0x16B30, 0x16B36),
     (0x16B40, 0x16B43), (0x16F4F, 0x16F4F), (0x16F8F, 0x16F9F), (0x16FE0, 0x16FE1), (0x16FE3, 0x16FE4),
     (0x1AFF0, 0x1AFF3), (0x1AFF5, 0x1AFFB), (0x1AFFD, 0x1AFFE), (0x1BC9D, 0x1BC9E), (0x1BCA0, 0x1BCA3),
     (0x1CF00, 0x1CF2D), (0x1CF30, 0x1CF46), (0x1D167, 0x1D169), (0x1D173, 0x1D182), (0x1D185, 0x1D18B),
     (0x1D1AA, 0x1D1AD), (0x1D242, 0x1D244), (0x1DA00, 0x1DA36), (0x1DA3B, 0x1DA6C), (0x1DA75, 0x1DA75),
     (0x1DA84, 0x1DA84), (0x1DA9B, 0x1DA9F), (0x1DAA1, 0x1DAAF), (0x1E000, 0x1E006), (0x1E008, 0x1E018),
     (0x1E01B, 0x1E021), (0x1E023, 0x1E024), (0x1E026, 0x1E02A), (0x1E130, 0x1E13D), (0x1E2AE, 0x1E2AE),
     (0x1E2EC, 0x1E2EF), (0x1E8D0, 0x1E8D6), (0x1E944, 0x1E94B), (0x1F3FB, 0x1F3FF), (0xE0001, 0xE0001),
     (0xE0020, 0xE007F), (0xE0100, 0xE01EF)]"

fun in_ranges :: "int \<Rightarrow> (int \<times> int) list \<Rightarrow> bool" where
  "in_ranges n [] = False"
| "in_ranges n ((lo, hi) # rs) =
     (if n < lo then False else if n \<le> hi then True else in_ranges n rs)"

fun lookup_lower :: "int \<Rightarrow> (int \<times> int \<times> int \<times> int) list \<Rightarrow> int option" where
  "lookup_lower n [] = None"
| "lookup_lower n ((lo, k, step, to) # es) =
     (if n < lo then None
      else if n \<le> lo + (k - 1) * step \<and> (n - lo) mod step = 0 then Some (to + (n - lo))
      else lookup_lower n es)"

definition final_sigma :: "int list \<Rightarrow> int list \<Rightarrow> bool" where
  \<comment> \<open>\<open>before\<close> holds the code points before the sigma, the nearest first\<close>
  "final_sigma before after =
     ((case dropWhile (\<lambda>n. in_ranges n case_ignorable_ranges) before of
         [] \<Rightarrow> False
       | p # ps \<Rightarrow> in_ranges p cased_ranges)
      \<and> (case dropWhile (\<lambda>n. in_ranges n case_ignorable_ranges) after of
           [] \<Rightarrow> True
         | p # ps \<Rightarrow> \<not> in_ranges p cased_ranges))"

definition lower_code_point :: "int list \<Rightarrow> int \<Rightarrow> string list \<Rightarrow> string option" where
  \<comment> \<open>the lower case of one code point between its neighbours; \<open>None\<close> when it has none\<close>
  "lower_code_point before n rest =
     (if n < 0x41 \<or> 0x1E921 < n then None
      else if n = 0x3A3 then
        Some (utf8 (if final_sigma before (map code_point rest) then 0x3C2 else 0x3C3))
      else if n = 0x130 then Some (utf8 0x69 @ utf8 0x307)
      else map_option utf8 (lookup_lower n lower_table))"

fun lower_chunks :: "int list \<Rightarrow> string list \<Rightarrow> string" where
  "lower_chunks before [] = []"
| "lower_chunks before (ch # rest) =
     (case lower_code_point before (code_point ch) rest of None \<Rightarrow> ch | Some l \<Rightarrow> l)
     @ lower_chunks (code_point ch # before) rest"

definition lower :: "string \<Rightarrow> string" where
  \<comment> \<open>\<^verbatim>\<open>s.lower()\<close>\<close>
  "lower s = lower_chunks [] (chunks s)"

fun contains :: "string \<Rightarrow> string \<Rightarrow> bool" where
  \<comment> \<open>\<^verbatim>\<open>sub in s\<close>, written \<open>contains sub s\<close>\<close>
  "contains sub [] = (sub = [])"
| "contains sub (c # cs) = (startswith sub (c # cs) \<or> contains sub cs)"

fun join :: "string \<Rightarrow> string list \<Rightarrow> string" where
  \<comment> \<open>\<^verbatim>\<open>sep.join(xs)\<close>\<close>
  "join sep [] = []"
| "join sep [x] = x"
| "join sep (x # y # ys) = x @ sep @ join sep (y # ys)"

definition digit :: "nat \<Rightarrow> char" where
  "digit d = char_of (48 + d)"

fun str_nat :: "nat \<Rightarrow> string" where
  \<comment> \<open>\<^verbatim>\<open>str(n)\<close> of a non-negative integer: its decimal digits\<close>
  "str_nat n = (if n < 10 then [digit n] else str_nat (n div 10) @ [digit (n mod 10)])"

declare str_nat.simps [simp del]

text \<open>
  The attribute values the program looks at are tested for truth, converted with
  \<^verbatim>\<open>str\<close> or formatted into an f-string. \<open>PyObj t\<close> is any other object, true in a
  condition, whose \<^verbatim>\<open>str\<close> is \<open>t\<close> (the library's device-type enumeration, for one).
\<close>

datatype pyval = PyNone | PyBool bool | PyStr string | PyObj string

fun truthy :: "pyval \<Rightarrow> bool" where
  "truthy PyNone = False"
| "truthy (PyBool b) = b"
| "truthy (PyStr s) = (s \<noteq> [])"
| "truthy (PyObj t) = True"

fun py_str :: "pyval \<Rightarrow> string" where
  "py_str PyNone = ''None''"
| "py_str (PyBool b) = (if b then ''True'' else ''False'')"
| "py_str (PyStr s) = s"
| "py_str (PyObj t) = t"

text \<open>
  An exception is its class name (\<^verbatim>\<open>type(e).__name__\<close>) and its text (\<^verbatim>\<open>str(e)\<close>),
  the two things the handlers of the source read.
\<close>

datatype exn = Exn (exn_name: string) (exn_text: string)

section \<open>The credential loader\<close>


record credentials =
  username :: string
  password :: string

definition no_credentials :: credentials where
  "no_credentials = \<lparr>username = [], password = []\<rparr>"





section \<open>Devices\<close>

text \<open>
  A device is an object of the external device-control library. The program only reads
  five of its attributes. A read either finds no such attribute (\<^verbatim>\<open>AttributeError\<close>,
  so \<^verbatim>\<open>hasattr\<close> is false and \<^verbatim>\<open>getattr\<close> takes its default), raises some other
  exception (which \<^verbatim>\<open>hasattr\<close> and \<^verbatim>\<open>getattr\<close> let through), or yields a value.
  Reading the same attribute twice gives the same answer.
\<close>

datatype attr = Absent | Raises exn | Val pyval

record device =
  dev_alias :: attr  \<comment> \<open>the attribute \<^verbatim>\<open>alias\<close>\<close>
  is_on :: attr
  is_available :: attr
  available :: attr
  device_type :: attr

definition getattr_default :: "attr \<Rightarrow> pyval \<Rightarrow> exn + pyval" where
  \<comment> \<open>\<^verbatim>\<open>getattr(device, name, default)\<close>\<close>
  "getattr_default a dflt = (case a of Absent \<Rightarrow> Inr dflt | Raises e \<Rightarrow> Inl e | Val v \<Rightarrow> Inr v)"

definition icon_plug :: string where "icon_plug = [CHR 0xF0, CHR 0x9F, CHR 0x94, CHR 0x8C]"
definition icon_bulb :: string where "icon_bulb = [CHR 0xF0, CHR 0x9F, CHR 0x92, CHR 0xA1]"
definition icon_switch :: string where "icon_switch = [CHR 0xE2, CHR 0x9A, CHR 0xA1]"
definition icon_strip :: string where "icon_strip = [CHR 0xF0, CHR 0x9F, CHR 0x94, CHR 0x97]"
definition icon_other :: string where "icon_other = [CHR 0xF0, CHR 0x9F, CHR 0x93, CHR 0xB1]"

definition status_on :: string where
  "status_on = [CHR 0xF0, CHR 0x9F, CHR 0x9F, CHR 0xA2] @ '' ON''"
definition status_off :: string where
  "status_off = [CHR 0xE2, CHR 0x9A, CHR 0xAB] @ '' OFF''"
definition status_unknown :: string where
  "status_unknown = [CHR 0xE2, CHR 0x9A, CHR 0xAA] @ '' Unknown''"

definition get_device_icon :: "device \<Rightarrow> exn + string" where
  "get_device_icon d =
     (case device_type d of
        Raises e \<Rightarrow> Inl e
      | Absent \<Rightarrow> Inr icon_other
      | Val v \<Rightarrow>
          (let t = lower (py_str v) in
           if contains ''plug'' t then Inr icon_plug
           else if contains ''bulb'' t \<or> contains ''light'' t then Inr icon_bulb
           else if contains ''switch'' t then Inr icon_switch
           else if contains ''strip'' t then Inr icon_strip
           else Inr icon_other))"

definition get_status_display :: "device \<Rightarrow> string" where
  "get_status_display d =
     (case is_on d of
        Val v \<Rightarrow> if truthy v then status_on else status_off
      | Absent \<Rightarrow> status_unknown
      | Raises e \<Rightarrow> status_unknown)"

section \<open>Statistics\<close>

record counts =
  online :: nat
  offline :: nat
  active :: nat

definition availability :: "device \<Rightarrow> exn + pyval" where
  \<comment> \<open>the value of \<^verbatim>\<open>is_available\<close> in \<^verbatim>\<open>update_statistics\<close>\<close>
  "availability d =
     (case is_available d of
        Raises e \<Rightarrow> Inl e
      | Val v \<Rightarrow> Inr v
      | Absent \<Rightarrow>
          (case available d of
             Raises e \<Rightarrow> Inl e
           | Val v \<Rightarrow> Inr v
           | Absent \<Rightarrow> Inr (PyBool True)))"

definition check_device :: "device \<Rightarrow> counts \<Rightarrow> counts \<times> exn option" where
  \<comment> \<open>one round of the loop of \<^verbatim>\<open>update_statistics\<close>; the exception is the one its handler caught\<close>
  "check_device d c =
     (case availability d of
        Inl e \<Rightarrow> (c\<lparr>offline := offline c + 1\<rparr>, Some e)
      | Inr v \<Rightarrow>
          (let c1 = (if truthy v then c\<lparr>online := online c + 1\<rparr>
                     else c\<lparr>offline := offline c + 1\<rparr>)
           in case is_on d of
                Raises e \<Rightarrow> (c1\<lparr>offline := offline c1 + 1\<rparr>, Some e)
              | Absent \<Rightarrow> (c1, None)
              | Val w \<Rightarrow> (if truthy w then c1\<lparr>active := active c1 + 1\<rparr> else c1, None)))"

fun check_devices :: "device list \<Rightarrow> counts \<times> string list \<Rightarrow> counts \<times> string list" where
  "check_devices [] acc = acc"
| "check_devices (d # ds) (c, out) =
     (case check_device d c of
        (c', None) \<Rightarrow> check_devices ds (c', out)
      | (c', Some e) \<Rightarrow>
          check_devices ds (c', out @ [''Error checking device status: '' @ exn_text e]))"

definition statistics :: "(string \<times> device) list \<Rightarrow> nat \<times> counts \<times> string list" where
  \<comment> \<open>the numbers \<^verbatim>\<open>update_statistics\<close> shows (total first) and the lines it prints\<close>
  "statistics devs =
     (let total = length devs;
          (c, out) = check_devices (map snd devs) (\<lparr>online = 0, offline = 0, active = 0\<rparr>, [])
      in (total,
          if online c = 0 \<and> offline c = 0 \<and> total > 0 then c\<lparr>online := total\<rparr> else c,
          out))"

section \<open>The window\<close>

text \<open>
  The state is the object after \<^verbatim>\<open>__init__\<close>, so the tree and the statistics labels
  exist and the two \<^verbatim>\<open>hasattr(self, ...)\<close> guards pass. Of the widgets only what the
  program reads back or a claim speaks of is kept.

  The device dictionary is an association list in insertion order.

  The tree is a \<^verbatim>\<open>ttk.Treeview\<close> without nesting. Tk keeps every item under its
  identifier until it is deleted: \<open>tree_items\<close>. The children of the root, in display
  order, are \<open>tree_children\<close>. The widget's operations are modelled as Tk documents
  them:
  \<^item> \<^verbatim>\<open>get_children()\<close> returns the children of the root, so an item that is detached
    is not among them;
  \<^item> \<^verbatim>\<open>detach\<close> unlinks an item from the tree; the item is still present and is not
    displayed;
  \<^item> \<^verbatim>\<open>reattach(item, '', 'end')\<close> is \<^verbatim>\<open>move\<close>: the item becomes the last child of the
    root, whether it was attached or not;
  \<^item> \<^verbatim>\<open>delete\<close> removes the item;
  \<^item> \<^verbatim>\<open>insert\<close> with an \<^verbatim>\<open>iid\<close> requires that no item has this identifier, attached or
    not; otherwise Tk answers \<^verbatim>\<open>Item ... already exists\<close> and tkinter raises \<^verbatim>\<open>TclError\<close>;
  \<^item> \<^verbatim>\<open>item(iid)['values']\<close> gives back the values the row was inserted with.

  Other calls into Tk return normally.

  Each coroutine is run from its start to its end with no other code in between. What the
  device-control library answers is a parameter of the coroutine. The calls it receives
  are recorded in \<open>calls\<close>, what \<^verbatim>\<open>print\<close> writes after the start in
  \<open>stdout\<close>, and each \<^verbatim>\<open>messagebox.showerror\<close> in \<open>alerts\<close>.
\<close>

record item =
  item_values :: "string list"
  item_tags :: "string list"

record stats =
  total_label :: string
  online_label :: string
  offline_label :: string
  active_label :: string

datatype dev_op = OpUpdate | OpTurnOn | OpTurnOff

datatype call =
    Discover "credentials option"
  | DiscoverSingle string "credentials option"
  | WaitFor dev_op string nat
    \<comment> \<open>\<^verbatim>\<open>asyncio.wait_for(device.op(), timeout=t)\<close> for the device at an address\<close>
  | Sleep nat

datatype coro = CoManualAdd string | CoDiscover | CoToggle string | CoTurnAll bool | CoRefresh

record event_loop =
  loop_closed :: bool
  stop_requested :: bool
  submitted :: "coro list"

record gui =
  devices :: "(string \<times> device) list"
  credentials :: credentials
  tree_items :: "(string \<times> item) list"
  tree_children :: "string list"
  stats_labels :: stats
  status_var :: string
  search_var :: string
  loop :: "event_loop option"
  stdout :: "string list"
  alerts :: "(string \<times> string) list"
  calls :: "call list"

fun dict_set :: "string \<Rightarrow> 'v \<Rightarrow> (string \<times> 'v) list \<Rightarrow> (string \<times> 'v) list" where
  \<comment> \<open>\<^verbatim>\<open>d[k] = v\<close>: a present key keeps its place, a new one goes last\<close>
  "dict_set k v [] = [(k, v)]"
| "dict_set k v ((k', v') # xs) = (if k' = k then (k, v) # xs else (k', v') # dict_set k v xs)"

definition print :: "string \<Rightarrow> gui \<Rightarrow> gui" where
  "print line s = s\<lparr>stdout := stdout s @ [line]\<rparr>"

definition showerror :: "string \<Rightarrow> string \<Rightarrow> gui \<Rightarrow> gui" where
  "showerror title msg s = s\<lparr>alerts := alerts s @ [(title, msg)]\<rparr>"

subsection \<open>The tree widget\<close>

definition tree_exists :: "gui \<Rightarrow> string \<Rightarrow> bool" where
  "tree_exists s iid = (iid \<in> set (map fst (tree_items s)))"

definition tree_delete :: "string \<Rightarrow> gui \<Rightarrow> gui" where
  "tree_delete iid s =
     s\<lparr>tree_items := filter (\<lambda>(k, it). k \<noteq> iid) (tree_items s),
       tree_children := removeAll iid (tree_children s)\<rparr>"

definition tree_detach :: "string \<Rightarrow> gui \<Rightarrow> gui" where
  "tree_detach iid s = s\<lparr>tree_children := removeAll iid (tree_children s)\<rparr>"

definition tree_reattach_end :: "string \<Rightarrow> gui \<Rightarrow> gui" where
  "tree_reattach_end iid s = s\<lparr>tree_children := removeAll iid (tree_children s) @ [iid]\<rparr>"

definition tree_insert_end :: "string \<Rightarrow> item \<Rightarrow> gui \<Rightarrow> exn + gui" where
  "tree_insert_end iid it s =
     (if tree_exists s iid then Inl (Exn ''TclError'' (''Item '' @ iid @ '' already exists''))
      else Inr (s\<lparr>tree_items := tree_items s @ [(iid, it)],
                  tree_children := tree_children s @ [iid]\<rparr>))"

definition tree_item_values :: "gui \<Rightarrow> string \<Rightarrow> string list" where
  \<comment> \<open>\<^verbatim>\<open>item(iid)['values']\<close>; the program asks for children of the root only, which are items\<close>
  "tree_item_values s iid =
     (case map_of (tree_items s) iid of None \<Rightarrow> [] | Some it \<Rightarrow> item_values it)"

definition hidden_rows :: "gui \<Rightarrow> string list" where
  \<comment> \<open>the items that exist in the widget and are not displayed\<close>
  "hidden_rows s = filter (\<lambda>iid. iid \<notin> set (tree_children s)) (map fst (tree_items s))"

subsection \<open>Search filter, statistics and list rendering\<close>

definition filter_row :: "string \<Rightarrow> string \<Rightarrow> gui \<Rightarrow> gui" where
  \<comment> \<open>the body of the loop of \<^verbatim>\<open>on_search_changed\<close>\<close>
  "filter_row search_term iid s =
     (let vs = tree_item_values s iid in
      if vs \<noteq> [] then
        (let device_text = join '' '' (map lower vs) in
         if contains search_term device_text then tree_reattach_end iid s
         else tree_detach iid s)
      else s)"

definition on_search_changed :: "gui \<Rightarrow> gui" where
  "on_search_changed s =
     (let t = lower (search_var s);
          search_term = (if t = ''search devices...'' then [] else t)
      in foldl (\<lambda>s' iid. filter_row search_term iid s') s (tree_children s))"

definition type_search :: "string \<Rightarrow> gui \<Rightarrow> gui" where
  \<comment> \<open>the user changes the text of the search box: the variable is written and its trace runs\<close>
  "type_search q s = on_search_changed (s\<lparr>search_var := q\<rparr>)"

definition update_statistics :: "gui \<Rightarrow> gui" where
  "update_statistics s =
     (let (total, c, out) = statistics (devices s)
      in s\<lparr>stats_labels :=
             \<lparr>total_label = str_nat total, online_label = str_nat (online c),
              offline_label = str_nat (offline c), active_label = str_nat (active c)\<rparr>,
           stdout := stdout s @ out\<rparr>)"

definition device_row :: "string \<Rightarrow> device \<Rightarrow> exn + item" where
  \<comment> \<open>the \<^verbatim>\<open>try\<close> block of \<^verbatim>\<open>update_device_list\<close> up to the values and the tag of the row\<close>
  "device_row ip d =
     (case getattr_default (dev_alias d) (PyStr (''Device at '' @ ip)) of
        Inl e \<Rightarrow> Inl e
      | Inr name \<Rightarrow>
          (let status = get_status_display d in
           case get_device_icon d of
             Inl e \<Rightarrow> Inl e
           | Inr device_icon \<Rightarrow>
               (let tag = (case is_on d of
                             Val v \<Rightarrow> if truthy v then ''online'' else ''offline''
                           | Absent \<Rightarrow> ''unknown''
                           | Raises e \<Rightarrow> ''unknown'')
                in Inr \<lparr>item_values = [device_icon @ '' '' @ py_str name, status, ''Toggle''],
                        item_tags = [tag]\<rparr>)))"

definition fallback_row :: "string \<Rightarrow> item" where
  "fallback_row ip =
     \<lparr>item_values = [icon_other @ '' Device '' @ ip, status_unknown, ''Toggle''],
      item_tags = [''unknown'']\<rparr>"

definition add_row :: "string \<Rightarrow> device \<Rightarrow> gui \<Rightarrow> exn option \<times> gui" where
  \<comment> \<open>one round of the loop over the devices; \<open>Some e\<close> is an exception that leaves the loop\<close>
  "add_row ip d s =
     (case (case device_row ip d of Inl e \<Rightarrow> Inl e | Inr it \<Rightarrow> tree_insert_end ip it s) of
        Inr s' \<Rightarrow> (None, s')
      | Inl e \<Rightarrow>
          (let s1 = print (''Error adding device '' @ ip @ '': '' @ exn_text e) s in
           case tree_insert_end ip (fallback_row ip) s1 of
             Inl e' \<Rightarrow> (Some e', s1)
           | Inr s2 \<Rightarrow> (None, s2)))"

fun add_rows :: "(string \<times> device) list \<Rightarrow> gui \<Rightarrow> exn option \<times> gui" where
  "add_rows [] s = (None, s)"
| "add_rows ((ip, d) # rest) s =
     (case add_row ip d s of
        (Some e, s') \<Rightarrow> (Some e, s')
      | (None, s') \<Rightarrow> add_rows rest s')"

definition clear_rows :: "gui \<Rightarrow> gui" where
  \<comment> \<open>the first loop of \<^verbatim>\<open>update_device_list\<close>\<close>
  "clear_rows s = foldl (\<lambda>s' iid. tree_delete iid s') s (tree_children s)"

definition update_device_list :: "gui \<Rightarrow> exn option \<times> gui" where
  "update_device_list s =
     (case add_rows (devices s) (clear_rows s) of
        (Some e, s') \<Rightarrow> (Some e, s')
      | (None, s') \<Rightarrow> (None, update_statistics s'))"

subsection \<open>The worker loop\<close>

definition run_async :: "coro \<Rightarrow> gui \<Rightarrow> gui" where
  "run_async co s =
     (case loop s of
        None \<Rightarrow> print ''Event loop not available'' s
      | Some l \<Rightarrow>
          if \<not> loop_closed l then s\<lparr>loop := Some (l\<lparr>submitted := submitted l @ [co]\<rparr>)\<rparr>
          else print ''Event loop not available'' s)"

definition cleanup :: "gui \<Rightarrow> gui" where
  \<comment> \<open>\<^verbatim>\<open>loop.stop\<close> is handed to the loop; the loop is not closed and the handle stays\<close>
  "cleanup s =
     (case loop s of
        None \<Rightarrow> s
      | Some l \<Rightarrow>
          if \<not> loop_closed l then s\<lparr>loop := Some (l\<lparr>stop_requested := True\<rparr>)\<rparr> else s)"

subsection \<open>The coroutines\<close>

definition credentials_arg :: "gui \<Rightarrow> credentials option" where
  \<comment> \<open>the credentials are passed to the library when both are non-empty\<close>
  "credentials_arg s =
     (if username (credentials s) \<noteq> [] \<and> password (credentials s) \<noteq> []
      then Some (credentials s) else None)"

definition issue :: "call list \<Rightarrow> gui \<Rightarrow> gui" where
  "issue cs s = s\<lparr>calls := calls s @ cs\<rparr>"

definition add_failed :: "string \<Rightarrow> exn \<Rightarrow> gui \<Rightarrow> gui" where
  \<comment> \<open>the handler of \<^verbatim>\<open>_manual_add_device\<close>\<close>
  "add_failed ip e s =
     (let error_msg = ''Failed to add device at '' @ ip @ '': '' @ exn_name e @ '' - '' @ exn_text e
      in showerror ''Add Device Error''
           (''Failed to add device at '' @ ip @ '':'' @ [CHR 0x0A] @ exn_text e)
           (print error_msg (s\<lparr>status_var := error_msg\<rparr>)))"

definition manual_add_device ::
  "string \<Rightarrow> exn + device option \<Rightarrow> (string \<Rightarrow> device \<Rightarrow> exn + device) \<Rightarrow> gui \<Rightarrow> gui" where
  \<comment> \<open>\<^verbatim>\<open>_manual_add_device(ip)\<close>; \<open>single\<close> is what \<^verbatim>\<open>discover_single\<close> answers and
      \<open>upd ip d\<close> what \<^verbatim>\<open>device.update()\<close> under its time limit does: it raises, or the
      device has the new state\<close>
  "manual_add_device ip single upd s =
     (let s1 = issue [DiscoverSingle ip (credentials_arg s)]
                 (s\<lparr>status_var := ''Connecting to device at '' @ ip @ ''...''\<rparr>)
      in case single of
           Inl e \<Rightarrow> add_failed ip e s1
         | Inr None \<Rightarrow> s1\<lparr>status_var := ''No device found at '' @ ip\<rparr>
         | Inr (Some d) \<Rightarrow>
             (let s2 = issue [WaitFor OpUpdate ip 10] s1 in
              case upd ip d of
                Inl e \<Rightarrow> add_failed ip e s2
              | Inr d' \<Rightarrow>
                  (case update_device_list (s2\<lparr>devices := dict_set ip d' (devices s2)\<rparr>) of
                     (Some e, s3) \<Rightarrow> add_failed ip e s3
                   | (None, s3) \<Rightarrow>
                       (case getattr_default (dev_alias d') (PyStr ip) of
                          Inl e \<Rightarrow> add_failed ip e s3
                        | Inr a \<Rightarrow>
                            s3\<lparr>status_var := ''Successfully added device: '' @ py_str a\<rparr>))))"

fun connect_all ::
  "(string \<Rightarrow> device \<Rightarrow> exn + device) \<Rightarrow> (string \<times> device) list \<Rightarrow>
   (string \<times> device) list \<times> string list \<Rightarrow> (string \<times> device) list \<times> string list" where
  \<comment> \<open>the loop of \<^verbatim>\<open>_discover_devices\<close> that fills \<^verbatim>\<open>working_devices\<close>\<close>
  "connect_all upd [] acc = acc"
| "connect_all upd ((ip, d) # rest) (working, out) =
     (let skipping = (\<lambda>e. ''Skipping problematic device at '' @ ip @ '': '' @ exn_name e
                            @ '' - '' @ exn_text e)
      in case upd ip d of
           Inl e \<Rightarrow> connect_all upd rest (working, out @ [skipping e])
         | Inr d' \<Rightarrow>
             (case getattr_default (dev_alias d') (PyStr ''Unknown'') of
                Inl e \<Rightarrow> connect_all upd rest (dict_set ip d' working, out @ [skipping e])
              | Inr a \<Rightarrow>
                  connect_all upd rest
                    (dict_set ip d' working,
                     out @ [''Successfully connected to device at '' @ ip @ '': '' @ py_str a])))"

definition discovery_failed :: "exn \<Rightarrow> gui \<Rightarrow> gui" where
  \<comment> \<open>the handler of \<^verbatim>\<open>_discover_devices\<close>\<close>
  "discovery_failed e s =
     showerror ''Discovery Error'' (''Failed to discover devices:'' @ [CHR 0x0A] @ exn_text e)
       (print (''Discovery error: '' @ exn_name e @ '' - '' @ exn_text e)
          (s\<lparr>status_var := ''Discovery failed: '' @ exn_text e\<rparr>))"

definition discover_devices ::
  "exn + (string \<times> device) list \<Rightarrow> (string \<Rightarrow> device \<Rightarrow> exn + device) \<Rightarrow> gui \<Rightarrow> gui" where
  \<comment> \<open>\<^verbatim>\<open>_discover_devices()\<close>; \<open>found\<close> is what \<^verbatim>\<open>Discover.discover\<close> answers\<close>
  "discover_devices found upd s =
     (let s1 = issue [Discover (credentials_arg s)] (s\<lparr>status_var := ''Discovering devices...''\<rparr>)
      in case found of
           Inl e \<Rightarrow> discovery_failed e s1
         | Inr devs \<Rightarrow>
             (let (working_devices, out) = connect_all upd devs ([], []);
                  s2 = issue (map (\<lambda>(ip, d). WaitFor OpUpdate ip 15) devs) s1;
                  s3 = s2\<lparr>stdout := stdout s2 @ out, devices := working_devices\<rparr>
              in case update_device_list s3 of
                   (Some e, s4) \<Rightarrow> discovery_failed e s4
                 | (None, s4) \<Rightarrow>
                     (if working_devices \<noteq> [] then
                        s4\<lparr>status_var := ''Found '' @ str_nat (length working_devices)
                                           @ '' working device(s)''\<rparr>
                      else
                        s4\<lparr>status_var := ''No working devices found. Check network connection or try setting credentials.''\<rparr>)))"

fun await_all ::
  "(string \<Rightarrow> exn option) \<Rightarrow> string list \<Rightarrow> nat \<times> nat \<times> string list \<Rightarrow> nat \<times> nat \<times> string list" where
  \<comment> \<open>the loop of \<^verbatim>\<open>_turn_all_devices\<close> that awaits the control tasks and counts\<close>
  "await_all ctl [] acc = acc"
| "await_all ctl (ip # ips) (successful, failed, out) =
     (case ctl ip of
        None \<Rightarrow> await_all ctl ips (successful + 1, failed, out)
      | Some e \<Rightarrow>
          await_all ctl ips
            (successful, failed + 1,
             out @ [''Failed to control device '' @ ip @ '': '' @ exn_name e @ '' - '' @ exn_text e]))"

definition refresh_device :: "(string \<Rightarrow> device \<Rightarrow> exn + device) \<Rightarrow> string \<times> device \<Rightarrow> string \<times> device" where
  \<comment> \<open>one update task of the second round: a failure is swallowed and the device keeps its state\<close>
  "refresh_device upd = (\<lambda>(ip, d). case upd ip d of Inl e \<Rightarrow> (ip, d) | Inr d' \<Rightarrow> (ip, d'))"

definition control_failed :: "exn \<Rightarrow> gui \<Rightarrow> gui" where
  \<comment> \<open>the handler of \<^verbatim>\<open>_turn_all_devices\<close>\<close>
  "control_failed e s =
     (let error_msg = ''Failed to control all devices: '' @ exn_name e @ '' - '' @ exn_text e
      in showerror ''Control Error'' (''Failed to control all devices:'' @ [CHR 0x0A] @ exn_text e)
           (print error_msg (s\<lparr>status_var := error_msg\<rparr>)))"

definition turn_all_devices ::
  "bool \<Rightarrow> (string \<Rightarrow> exn option) \<Rightarrow> (string \<Rightarrow> device \<Rightarrow> exn + device) \<Rightarrow> gui \<Rightarrow> gui" where
  \<comment> \<open>\<^verbatim>\<open>_turn_all_devices(turn_on)\<close>; \<open>ctl ip\<close> is how the control call of the device at
      \<open>ip\<close> ends under its time limit: \<open>None\<close> when it completes, the exception otherwise
      (\<^verbatim>\<open>TimeoutError\<close> when the limit passes)\<close>
  "turn_all_devices turn_on ctl upd s =
     (let action = (if turn_on then ''on'' else ''off'');
          s1 = s\<lparr>status_var := ''Turning all devices '' @ action @ ''...''\<rparr>;
          ips = map fst (devices s1);
          s2 = issue (map (\<lambda>ip. WaitFor (if turn_on then OpTurnOn else OpTurnOff) ip 10) ips) s1;
          (successful, failed, out) = await_all ctl ips (0, 0, []);
          s3 = issue (Sleep 1 # map (\<lambda>ip. WaitFor OpUpdate ip 10) ips) (s2\<lparr>stdout := stdout s2 @ out\<rparr>);
          s4 = s3\<lparr>devices := map (refresh_device upd) (devices s3)\<rparr>
      in case update_device_list s4 of
           (Some e, s5) \<Rightarrow> control_failed e s5
         | (None, s5) \<Rightarrow>
             (if failed = 0 then
                s5\<lparr>status_var := ''All '' @ str_nat successful @ '' devices turned '' @ action\<rparr>
              else
                s5\<lparr>status_var := str_nat successful @ '' devices turned '' @ action @ '', ''
                                   @ str_nat failed @ '' failed''\<rparr>))"

subsection \<open>The window after start\<close>

definition initial_gui :: "credentials \<Rightarrow> gui" where
  \<comment> \<open>the object \<^verbatim>\<open>__init__\<close> leaves: no device, an empty tree, a running loop\<close>
  "initial_gui cr =
     \<lparr>devices = [], credentials = cr, tree_items = [], tree_children = [],
      stats_labels = \<lparr>total_label = ''0'', online_label = ''0'', offline_label = ''0'',
                      active_label = ''0''\<rparr>,
      status_var = ''Ready - Click 'Discover' to find your devices'',
      search_var = ''Search devices...'',
      loop = Some \<lparr>loop_closed = False, stop_requested = False, submitted = []\<rparr>,
      stdout = [], alerts = [], calls = []\<rparr>"

section \<open>Notions of the specification\<close>

text \<open>
  The next five definitions are not code of the program. They say, in the words of the
  specification, what the theorems below compare the program with: the devices of a
  discovery pass that passed their connectivity update, the reachability signal of a
  device, the row a device is shown with, and the numbers of control calls that completed
  and that did not.
\<close>

definition working ::
  "(string \<Rightarrow> device \<Rightarrow> exn + device) \<Rightarrow> (string \<times> device) list \<Rightarrow> (string \<times> device) list" where
  "working upd devs =
     List.map_filter (\<lambda>(ip, d). case upd ip d of Inl e \<Rightarrow> None | Inr d' \<Rightarrow> Some (ip, d')) devs"

definition reachable :: "device \<Rightarrow> bool" where
  \<comment> \<open>the reachability signal of a device: \<^verbatim>\<open>is_available\<close> if the device has it, else
      \<^verbatim>\<open>available\<close> if it has that, else reachable\<close>
  "reachable d =
     (case is_available d of
        Val v \<Rightarrow> truthy v
      | Raises e \<Rightarrow> False
      | Absent \<Rightarrow> (case available d of Val v \<Rightarrow> truthy v | Raises e \<Rightarrow> False | Absent \<Rightarrow> True))"

definition shown_row :: "string \<Rightarrow> device \<Rightarrow> item" where
  "shown_row ip d = (case device_row ip d of Inl e \<Rightarrow> fallback_row ip | Inr it \<Rightarrow> it)"

definition controlled :: "(string \<Rightarrow> exn option) \<Rightarrow> string list \<Rightarrow> nat" where
  "controlled ctl ips = length (filter (\<lambda>ip. ctl ip = None) ips)"

definition uncontrolled :: "(string \<Rightarrow> exn option) \<Rightarrow> string list \<Rightarrow> nat" where
  "uncontrolled ctl ips = length (filter (\<lambda>ip. ctl ip \<noteq> None) ips)"

section \<open>Example runs\<close>

text \<open>
  Concrete devices, library answers and windows for the examples: three plugs found by a
  discovery from the window after start (the first on, the second off, the third with no
  \<^verbatim>\<open>is_on\<close> attribute), a later discovery that no longer finds the second, a
  camera that is available and whose \<^verbatim>\<open>is_on\<close> raises, and a batch in which the
  calls to the first plug time out.
\<close>

definition plug :: "string \<Rightarrow> attr \<Rightarrow> device" where
  "plug name flag =
     \<lparr>dev_alias = Val (PyStr name), is_on = flag, is_available = Absent, available = Absent,
      device_type = Val (PyObj ''DeviceType.Plug'')\<rparr>"

definition three_found :: "(string \<times> device) list" where
  "three_found =
     [(''10.0.0.1'', plug ''Lamp'' (Val (PyBool True))),
      (''10.0.0.2'', plug ''Fan'' (Val (PyBool False))),
      (''10.0.0.3'', plug ''Heater'' Absent)]"

definition later_found :: "(string \<times> device) list" where
  "later_found =
     [(''10.0.0.1'', plug ''Lamp'' (Val (PyBool True))),
      (''10.0.0.3'', plug ''Heater'' Absent)]"

definition camera :: device where
  "camera =
     (plug ''Camera'' (Raises (Exn ''KasaException'' ''no state'')))
       \<lparr>is_available := Val (PyBool True)\<rparr>"

definition three_with_raising_flag :: "(string \<times> device) list" where
  \<comment> \<open>the first on, the second off and not \<^verbatim>\<open>available\<close>, the third with an \<^verbatim>\<open>is_on\<close> that raises\<close>
  "three_with_raising_flag =
     [(''10.0.0.1'', plug ''Lamp'' (Val (PyBool True))),
      (''10.0.0.2'', (plug ''Fan'' (Val (PyBool False)))\<lparr>available := Val (PyBool False)\<rparr>),
      (''10.0.0.3'', plug ''Heater'' (Raises (Exn ''KasaException'' ''no state'')))]"

definition mute :: device where
  \<comment> \<open>a plug whose \<^verbatim>\<open>alias\<close> raises\<close>
  "mute = (plug [] (Val (PyBool True)))\<lparr>dev_alias := Raises (Exn ''KasaException'' ''no alias'')\<rparr>"

definition answers :: "string \<Rightarrow> device \<Rightarrow> exn + device" where
  \<comment> \<open>every update completes and leaves the device as it is\<close>
  "answers ip d = Inr d"

definition nobody :: "string \<Rightarrow> device \<Rightarrow> exn + device" where
  \<comment> \<open>every update times out\<close>
  "nobody ip d = Inl (Exn ''TimeoutError'' [])"

definition first_times_out :: "string \<Rightarrow> exn option" where
  "first_times_out ip = (if ip = ''10.0.0.1'' then Some (Exn ''TimeoutError'' []) else None)"

definition switched_off :: "string \<Rightarrow> device \<Rightarrow> exn + device" where
  \<comment> \<open>the update of the first plug times out, the others report the state off\<close>
  "switched_off ip d =
     (if ip = ''10.0.0.1'' then Inl (Exn ''TimeoutError'' [])
      else Inr (d\<lparr>is_on := Val (PyBool False)\<rparr>))"

definition three_shown :: gui where
  "three_shown = discover_devices (Inr three_found) answers (initial_gui no_credentials)"

definition one_unreadable :: gui where
  "one_unreadable =
     discover_devices
       (Inr [(''10.0.0.7'', plug ''Heater'' (Raises (Exn ''KasaException'' ''no state'')))])
       answers (initial_gui no_credentials)"

section \<open>Lemmas\<close>

subsection \<open>Strings and the loader\<close>







lemma strip_removes_white_space:
  "map (\<lambda>p. strip (p @ ''x'' @ p)) white_space = replicate 29 ''x''"
  by code_simp









subsection \<open>Frame lemmas\<close>

lemma print_fields [simp]:
  "devices (print l s) = devices s" "tree_items (print l s) = tree_items s"
  "tree_children (print l s) = tree_children s" "calls (print l s) = calls s"
  "alerts (print l s) = alerts s" "status_var (print l s) = status_var s"
  "loop (print l s) = loop s" "stdout (print l s) = stdout s @ [l]"
  by (simp_all add: print_def)

lemma showerror_fields [simp]:
  "devices (showerror t m s) = devices s" "tree_items (showerror t m s) = tree_items s"
  "tree_children (showerror t m s) = tree_children s" "calls (showerror t m s) = calls s"
  "status_var (showerror t m s) = status_var s" "stdout (showerror t m s) = stdout s"
  by (simp_all add: showerror_def)

lemma issue_fields [simp]:
  "devices (issue cs s) = devices s" "tree_items (issue cs s) = tree_items s"
  "tree_children (issue cs s) = tree_children s" "calls (issue cs s) = calls s @ cs"
  "status_var (issue cs s) = status_var s" "stdout (issue cs s) = stdout s"
  by (simp_all add: issue_def)

lemma update_statistics_fields [simp]:
  "devices (update_statistics s) = devices s" "tree_items (update_statistics s) = tree_items s"
  "tree_children (update_statistics s) = tree_children s" "calls (update_statistics s) = calls s"
  "status_var (update_statistics s) = status_var s"
  by (simp_all add: update_statistics_def split: prod.splits)

lemma tree_delete_fields [simp]:
  "devices (tree_delete i s) = devices s" "calls (tree_delete i s) = calls s"
  "tree_items (tree_delete i s) = filter (\<lambda>(k, it). k \<noteq> i) (tree_items s)"
  "tree_children (tree_delete i s) = removeAll i (tree_children s)"
  by (simp_all add: tree_delete_def)

lemma tree_detach_fields [simp]:
  "devices (tree_detach i s) = devices s" "tree_items (tree_detach i s) = tree_items s"
  "tree_children (tree_detach i s) = removeAll i (tree_children s)"
  by (simp_all add: tree_detach_def)

lemma tree_reattach_end_fields [simp]:
  "devices (tree_reattach_end i s) = devices s" "tree_items (tree_reattach_end i s) = tree_items s"
  "tree_children (tree_reattach_end i s) = removeAll i (tree_children s) @ [i]"
  by (simp_all add: tree_reattach_end_def)

lemma tree_insert_end_Inr:
  "tree_insert_end i it s = Inr s' \<Longrightarrow>
     devices s' = devices s \<and> calls s' = calls s \<and> stdout s' = stdout s
     \<and> tree_items s' = tree_items s @ [(i, it)] \<and> tree_children s' = tree_children s @ [i]
     \<and> \<not> tree_exists s i"
  by (auto simp: tree_insert_end_def split: if_splits)

lemma tree_insert_end_new:
  "\<not> tree_exists s i \<Longrightarrow>
     tree_insert_end i it s =
       Inr (s\<lparr>tree_items := tree_items s @ [(i, it)], tree_children := tree_children s @ [i]\<rparr>)"
  by (simp add: tree_insert_end_def)

lemma tree_exists_print [simp]: "tree_exists (print l s) i = tree_exists s i"
  by (simp add: tree_exists_def)

lemma filter_row_fields [simp]:
  "devices (filter_row t i s) = devices s" "tree_items (filter_row t i s) = tree_items s"
  by (simp_all add: filter_row_def Let_def)

lemma foldl_filter_row_fields:
  "devices (foldl (\<lambda>s' i. filter_row t i s') s xs) = devices s
   \<and> tree_items (foldl (\<lambda>s' i. filter_row t i s') s xs) = tree_items s"
  by (induction xs arbitrary: s) simp_all

lemma on_search_changed_fields [simp]:
  "devices (on_search_changed s) = devices s" "tree_items (on_search_changed s) = tree_items s"
  by (simp_all add: on_search_changed_def Let_def foldl_filter_row_fields)

lemma foldl_tree_delete:
  "devices (foldl (\<lambda>s' i. tree_delete i s') s xs) = devices s
   \<and> calls (foldl (\<lambda>s' i. tree_delete i s') s xs) = calls s
   \<and> tree_items (foldl (\<lambda>s' i. tree_delete i s') s xs)
       = filter (\<lambda>(k, it). k \<notin> set xs) (tree_items s)
   \<and> tree_children (foldl (\<lambda>s' i. tree_delete i s') s xs)
       = filter (\<lambda>k. k \<notin> set xs) (tree_children s)"
proof (induction xs arbitrary: s)
  case Nil
  show ?case by simp
next
  case (Cons x xs)
  have "filter (\<lambda>(k, it). k \<notin> set xs) (filter (\<lambda>(k, it). k \<noteq> x) (tree_items s))
        = filter (\<lambda>(k, it). k \<notin> set (x # xs)) (tree_items s)"
    by (induction "tree_items s") (auto split: prod.splits intro: filter_cong)
  moreover have "filter (\<lambda>k. k \<notin> set xs) (removeAll x (tree_children s))
        = filter (\<lambda>k. k \<notin> set (x # xs)) (tree_children s)"
    by (auto simp: removeAll_filter_not_eq intro: filter_cong)
  ultimately show ?case using Cons.IH [of "tree_delete x s"] by simp
qed

lemma clear_rows_fields [simp]:
  "devices (clear_rows s) = devices s" "calls (clear_rows s) = calls s"
  "tree_children (clear_rows s) = []"
  by (simp_all add: clear_rows_def foldl_tree_delete)

lemma clear_rows_items:
  "tree_items (clear_rows s) = filter (\<lambda>(k, it). k \<notin> set (tree_children s)) (tree_items s)"
  by (simp add: clear_rows_def foldl_tree_delete)

lemma add_row_fields:
  "devices (snd (add_row ip d s)) = devices s \<and> calls (snd (add_row ip d s)) = calls s"
  by (auto simp: add_row_def Let_def split: sum.splits dest!: tree_insert_end_Inr)

lemma add_rows_fields:
  "devices (snd (add_rows devs s)) = devices s \<and> calls (snd (add_rows devs s)) = calls s"
proof (induction devs arbitrary: s)
  case Nil
  show ?case by simp
next
  case (Cons p devs)
  obtain ip d where p: "p = (ip, d)" by (cases p)
  show ?case
    using Cons.IH [of "snd (add_row ip d s)"] add_row_fields [of ip d s]
    by (cases "add_row ip d s") (auto simp: p split: option.splits)
qed

lemma update_device_list_fields [simp]:
  "devices (snd (update_device_list s)) = devices s"
  "calls (snd (update_device_list s)) = calls s"
  using add_rows_fields [of "devices s" "clear_rows s"]
  by (auto simp: update_device_list_def split: prod.splits option.splits)

subsection \<open>Rendering\<close>

lemma add_row_new:
  assumes "\<not> tree_exists s ip"
  shows "fst (add_row ip d s) = None
     \<and> tree_children (snd (add_row ip d s)) = tree_children s @ [ip]
     \<and> map fst (tree_items (snd (add_row ip d s))) = map fst (tree_items s) @ [ip]"
  using assms
  by (auto simp: add_row_def Let_def tree_insert_end_new split: sum.splits)

lemma add_row_children:
  "set (tree_children (snd (add_row ip d s))) \<subseteq> insert ip (set (tree_children s))"
  by (auto simp: add_row_def Let_def split: sum.splits dest!: tree_insert_end_Inr)

lemma add_rows_children:
  "set (tree_children (snd (add_rows devs s))) \<subseteq> set (tree_children s) \<union> set (map fst devs)"
proof (induction devs arbitrary: s)
  case Nil
  show ?case by simp
next
  case (Cons p devs)
  obtain ip d where p: "p = (ip, d)" by (cases p)
  show ?case
    using Cons.IH [of "snd (add_row ip d s)"] add_row_children [of ip d s]
    by (cases "add_row ip d s") (auto simp: p split: option.splits)
qed

lemma add_rows_new:
  assumes "distinct (map fst devs)" "set (map fst devs) \<inter> set (map fst (tree_items s)) = {}"
  shows "fst (add_rows devs s) = None
     \<and> tree_children (snd (add_rows devs s)) = tree_children s @ map fst devs
     \<and> map fst (tree_items (snd (add_rows devs s))) = map fst (tree_items s) @ map fst devs"
  using assms
proof (induction devs arbitrary: s)
  case Nil
  show ?case by simp
next
  case (Cons p devs)
  obtain ip d where p: "p = (ip, d)" by (cases p)
  from Cons.prems have new: "\<not> tree_exists s ip"
    by (auto simp: p tree_exists_def)
  note row = add_row_new [OF new, of d]
  have "set (map fst devs) \<inter> set (map fst (tree_items (snd (add_row ip d s)))) = {}"
    using Cons.prems row by (auto simp: p)
  moreover have "distinct (map fst devs)"
    using Cons.prems by simp
  ultimately show ?case
    using Cons.IH [of "snd (add_row ip d s)"] row
    by (cases "add_row ip d s") (auto simp: p)
qed

lemma update_device_list_children:
  "set (tree_children (snd (update_device_list s))) \<subseteq> set (map fst (devices s))"
  using add_rows_children [of "devices s" "clear_rows s"]
  by (auto simp: update_device_list_def split: prod.splits option.splits)

lemma hidden_rows_empty: "hidden_rows s = [] \<longleftrightarrow> set (map fst (tree_items s)) \<subseteq> set (tree_children s)"
  by (auto simp: hidden_rows_def filter_empty_conv)

lemma clear_rows_no_items:
  assumes "hidden_rows s = []"
  shows "tree_items (clear_rows s) = []"
  using assms by (auto simp: clear_rows_items hidden_rows_empty filter_empty_conv)

lemma update_device_list_redraws:
  assumes "hidden_rows s = []" "distinct (map fst (devices s))"
  shows "fst (update_device_list s) = None
     \<and> tree_children (snd (update_device_list s)) = map fst (devices s)
     \<and> map fst (tree_items (snd (update_device_list s))) = map fst (devices s)"
proof -
  have "set (map fst (devices s)) \<inter> set (map fst (tree_items (clear_rows s))) = {}"
    using assms(1) by (simp add: clear_rows_no_items)
  from add_rows_new [OF assms(2) this] show ?thesis
    using assms(1)
    by (cases "add_rows (devices s) (clear_rows s)") (auto simp: update_device_list_def clear_rows_no_items)
qed

lemma update_device_list_hidden_rows:
  assumes "hidden_rows s = []" "distinct (map fst (devices s))"
  shows "hidden_rows (snd (update_device_list s)) = []"
  using update_device_list_redraws [OF assms] by (simp add: hidden_rows_empty)

lemma add_row_existing:
  assumes "tree_exists s ip"
  shows "fst (add_row ip d s) = Some (Exn ''TclError'' (''Item '' @ ip @ '' already exists''))"
  using assms
  by (simp add: add_row_def Let_def tree_insert_end_def split: sum.splits)

lemma add_rows_raises_iff:
  assumes "distinct (map fst devs)"
  shows "(fst (add_rows devs s) \<noteq> None) = (set (map fst devs) \<inter> set (map fst (tree_items s)) \<noteq> {})"
  using assms
proof (induction devs arbitrary: s)
  case Nil
  show ?case by simp
next
  case (Cons p devs)
  obtain ip d where p: "p = (ip, d)" by (cases p)
  show ?case
  proof (cases "tree_exists s ip")
    case True
    have "fst (add_rows (p # devs) s) \<noteq> None"
      using add_row_existing [OF True, of d] by (cases "add_row ip d s") (simp add: p)
    moreover have "ip \<in> set (map fst (tree_items s))"
      using True by (simp add: tree_exists_def)
    ultimately show ?thesis by (auto simp: p)
  next
    case False
    note row = add_row_new [OF False, of d]
    have rest: "distinct (map fst devs)" and fresh: "ip \<notin> set (map fst devs)"
      using Cons.prems by (simp_all add: p)
    have "fst (add_rows (p # devs) s) = fst (add_rows devs (snd (add_row ip d s)))"
      using row by (cases "add_row ip d s") (simp add: p)
    also have "(\<dots> \<noteq> None) =
        (set (map fst devs) \<inter> set (map fst (tree_items (snd (add_row ip d s)))) \<noteq> {})"
      by (rule Cons.IH [OF rest])
    also have "\<dots> = (set (map fst (p # devs)) \<inter> set (map fst (tree_items s)) \<noteq> {})"
      using row fresh False by (auto simp: p tree_exists_def)
    finally show ?thesis .
  qed
qed

lemma clear_rows_keeps_hidden: "map fst (tree_items (clear_rows s)) = hidden_rows s"
proof -
  have "map fst (filter (\<lambda>(k, it). k \<notin> A) xs) = filter (\<lambda>k. k \<notin> A) (map fst xs)" for A and xs :: "(string \<times> item) list"
    by (induction xs) auto
  then show ?thesis by (simp add: clear_rows_items hidden_rows_def)
qed

lemma update_device_list_raises_iff:
  assumes "distinct (map fst (devices s))"
  shows "(fst (update_device_list s) \<noteq> None) = (set (map fst (devices s)) \<inter> set (hidden_rows s) \<noteq> {})"
proof -
  have "(fst (update_device_list s) \<noteq> None) = (fst (add_rows (devices s) (clear_rows s)) \<noteq> None)"
    by (cases "add_rows (devices s) (clear_rows s)")
      (auto simp: update_device_list_def split: option.splits)
  also have "\<dots> = (set (map fst (devices s)) \<inter> set (map fst (tree_items (clear_rows s))) \<noteq> {})"
    using add_rows_raises_iff [OF assms, of "clear_rows s"] by simp
  finally show ?thesis by (simp add: clear_rows_keeps_hidden)
qed

subsection \<open>Dictionaries and discovery\<close>

lemma dict_set_keys: "fst ` set (dict_set k v xs) = insert k (fst ` set xs)"
proof (induction xs)
  case Nil
  show ?case by simp
next
  case (Cons p xs)
  obtain k' v' where p: "p = (k', v')" by (cases p)
  from Cons show ?case
    by (cases "k' = k") (simp_all add: p insert_commute)
qed

lemma dict_set_new: "k \<notin> set (map fst xs) \<Longrightarrow> dict_set k v xs = xs @ [(k, v)]"
  by (induction xs) auto

lemma dict_set_distinct: "distinct (map fst xs) \<Longrightarrow> distinct (map fst (dict_set k v xs))"
proof (induction xs)
  case Nil
  show ?case by simp
next
  case (Cons p xs)
  obtain k' v' where p: "p = (k', v')" by (cases p)
  show ?case
  proof (cases "k' = k")
    case True
    with Cons.prems show ?thesis by (simp add: p)
  next
    case False
    have "k' \<notin> fst ` set (dict_set k v xs)"
      using Cons.prems False by (simp add: p dict_set_keys)
    with Cons False show ?thesis by (simp add: p)
  qed
qed

lemma map_of_dict_set: "map_of (dict_set k v xs) = (map_of xs)(k \<mapsto> v)"
  by (induction xs) (auto simp: fun_eq_iff)

lemma dict_set_length:
  "length (dict_set k v xs) = (if k \<in> fst ` set xs then length xs else Suc (length xs))"
proof (induction xs)
  case Nil
  show ?case by simp
next
  case (Cons p xs)
  obtain k' v' where p: "p = (k', v')" by (cases p)
  from Cons show ?case
    by (cases "k' = k") (simp_all add: p)
qed

lemma working_Nil: "working upd [] = []"
  by (simp add: working_def map_filter_simps)

lemma working_Cons:
  "working upd ((ip, d) # devs) =
     (case upd ip d of Inl e \<Rightarrow> working upd devs | Inr d' \<Rightarrow> (ip, d') # working upd devs)"
  by (simp add: working_def map_filter_simps split: sum.splits)

lemma working_keys: "fst ` set (working upd devs) \<subseteq> fst ` set devs"
proof (induction devs)
  case Nil
  show ?case by (simp add: working_Nil)
next
  case (Cons p devs)
  obtain ip d where p: "p = (ip, d)" by (cases p)
  from Cons show ?case
    by (cases "upd ip d") (auto simp: p working_Cons)
qed

lemma connect_all_working:
  assumes "distinct (map fst devs)" "set (map fst devs) \<inter> set (map fst w) = {}"
  shows "fst (connect_all upd devs (w, out)) = w @ working upd devs"
  using assms
proof (induction devs arbitrary: w out)
  case Nil
  show ?case by (simp add: working_Nil)
next
  case (Cons p devs)
  obtain ip d where p: "p = (ip, d)" by (cases p)
  from Cons.prems have fresh: "ip \<notin> set (map fst w)" and rest: "distinct (map fst devs)"
    and disj: "set (map fst devs) \<inter> set (map fst w) = {}" and notin: "ip \<notin> set (map fst devs)"
    by (auto simp: p)
  show ?case
  proof (cases "upd ip d")
    case (Inl e)
    then show ?thesis
      using Cons.IH [OF rest disj] by (simp add: p working_Cons)
  next
    case (Inr d')
    have disj': "set (map fst devs) \<inter> set (map fst (dict_set ip d' w)) = {}"
      using disj notin by (auto simp: dict_set_keys)
    show ?thesis
      using Inr Cons.IH [OF rest disj'] fresh
      by (simp add: p working_Cons dict_set_new split: sum.splits)
  qed
qed

lemma discovery_failed_fields [simp]:
  "devices (discovery_failed e s) = devices s" "tree_children (discovery_failed e s) = tree_children s"
  "calls (discovery_failed e s) = calls s"
  by (simp_all add: discovery_failed_def)

lemma update_device_list_devicesD:
  "update_device_list s = (r, s') \<Longrightarrow> devices s' = devices s"
  using update_device_list_fields(1) [of s] by simp

lemma update_device_list_childrenD:
  "update_device_list s = (r, s') \<Longrightarrow> set (tree_children s') \<subseteq> fst ` set (devices s)"
  using update_device_list_children [of s] by simp

lemma discover_devices_mapping:
  "devices (discover_devices (Inr devs) upd s) = fst (connect_all upd devs ([], []))"
  by (auto simp: discover_devices_def Let_def split: prod.splits option.splits
      dest!: update_device_list_devicesD)

lemma discover_devices_children:
  "set (tree_children (discover_devices (Inr devs) upd s))
     \<subseteq> fst ` set (devices (discover_devices (Inr devs) upd s))"
proof -
  obtain wd out where c: "connect_all upd devs ([], []) = (wd, out)"
    by (cases "connect_all upd devs ([], [])")
  define s2 where "s2 = issue (map (\<lambda>(ip, d). WaitFor OpUpdate ip 15) devs)
       (issue [Discover (credentials_arg s)] (s\<lparr>status_var := ''Discovering devices...''\<rparr>))"
  define s3 where "s3 = s2\<lparr>stdout := stdout s2 @ out, devices := wd\<rparr>"
  obtain r s4 where u: "update_device_list s3 = (r, s4)"
    by (cases "update_device_list s3")
  have d3: "devices s3 = wd" by (simp add: s3_def)
  have run: "discover_devices (Inr devs) upd s =
      (case r of
         Some e \<Rightarrow> discovery_failed e s4
       | None \<Rightarrow>
           if wd \<noteq> [] then
             s4\<lparr>status_var := ''Found '' @ str_nat (length wd) @ '' working device(s)''\<rparr>
           else
             s4\<lparr>status_var := ''No working devices found. Check network connection or try setting credentials.''\<rparr>)"
    unfolding discover_devices_def Let_def sum.case c prod.case s2_def [symmetric] s3_def [symmetric] u
    by (cases r) simp_all
  have "set (tree_children s4) \<subseteq> fst ` set wd" and "devices s4 = wd"
    using update_device_list_childrenD [OF u] update_device_list_devicesD [OF u] d3 by simp_all
  then show ?thesis
    unfolding run by (cases r) auto
qed

subsection \<open>Rows, manual add and the batch\<close>

lemma add_row_new_item:
  assumes "\<not> tree_exists s ip"
  shows "tree_items (snd (add_row ip d s)) = tree_items s @ [(ip, shown_row ip d)]"
  using assms
  by (auto simp: add_row_def Let_def shown_row_def tree_insert_end_new split: sum.splits)

lemma add_rows_new_items:
  assumes "distinct (map fst devs)" "set (map fst devs) \<inter> set (map fst (tree_items s)) = {}"
  shows "tree_items (snd (add_rows devs s)) = tree_items s @ map (\<lambda>(ip, d). (ip, shown_row ip d)) devs"
  using assms
proof (induction devs arbitrary: s)
  case Nil
  show ?case by simp
next
  case (Cons p devs)
  obtain ip d where p: "p = (ip, d)" by (cases p)
  from Cons.prems have new: "\<not> tree_exists s ip"
    by (auto simp: p tree_exists_def)
  note row = add_row_new [OF new, of d] add_row_new_item [OF new, of d]
  have "set (map fst devs) \<inter> set (map fst (tree_items (snd (add_row ip d s)))) = {}"
    using Cons.prems row(1) by (auto simp: p)
  moreover have "distinct (map fst devs)"
    using Cons.prems by simp
  ultimately show ?case
    using Cons.IH [of "snd (add_row ip d s)"] row
    by (cases "add_row ip d s") (auto simp: p)
qed

lemma update_device_list_rows:
  assumes "hidden_rows s = []" "distinct (map fst (devices s))"
  shows "tree_items (snd (update_device_list s)) = map (\<lambda>(ip, d). (ip, shown_row ip d)) (devices s)"
proof -
  have disj: "set (map fst (devices s)) \<inter> set (map fst (tree_items (clear_rows s))) = {}"
    using assms(1) by (simp add: clear_rows_no_items)
  from add_rows_new [OF assms(2) disj] add_rows_new_items [OF assms(2) disj] show ?thesis
    using assms(1)
    by (cases "add_rows (devices s) (clear_rows s)") (auto simp: update_device_list_def clear_rows_no_items)
qed

lemma unreadable_state_shown_unknown:
  assumes "is_on d = Absent \<or> is_on d = Raises e"
  shows "get_status_display d = status_unknown
     \<and> item_values (shown_row ip d) ! 1 = status_unknown
     \<and> item_tags (shown_row ip d) = [''unknown'']"
  using assms
  by (auto simp: get_status_display_def shown_row_def device_row_def fallback_row_def Let_def
      split: sum.splits)

lemma add_failed_fields [simp]:
  "devices (add_failed ip e s) = devices s" "tree_children (add_failed ip e s) = tree_children s"
  "calls (add_failed ip e s) = calls s"
  by (simp_all add: add_failed_def Let_def)

lemma control_failed_fields [simp]:
  "devices (control_failed e s) = devices s" "tree_children (control_failed e s) = tree_children s"
  "calls (control_failed e s) = calls s"
  by (simp_all add: control_failed_def Let_def)

lemma dict_set_others:
  "filter (\<lambda>p. fst p \<noteq> k) (dict_set k v xs) = filter (\<lambda>p. fst p \<noteq> k) xs"
  by (induction xs) auto

lemma manual_add_device_devices:
  "devices (manual_add_device ip single upd s) =
     (case single of
        Inl e \<Rightarrow> devices s
      | Inr None \<Rightarrow> devices s
      | Inr (Some d) \<Rightarrow> (case upd ip d of Inl e \<Rightarrow> devices s | Inr d' \<Rightarrow> dict_set ip d' (devices s)))"
proof (cases single)
  case (Inl e)
  then show ?thesis by (simp add: manual_add_device_def Let_def)
next
  case (Inr od)
  show ?thesis
  proof (cases od)
    case None
    with Inr show ?thesis by (simp add: manual_add_device_def Let_def)
  next
    case (Some d)
    show ?thesis
    proof (cases "upd ip d")
      case (Inl e)
      with Inr Some show ?thesis by (simp add: manual_add_device_def Let_def)
    next
      case upd: (Inr d')
      define s2 where "s2 = issue [WaitFor OpUpdate ip 10] (issue [DiscoverSingle ip (credentials_arg s)]
                 (s\<lparr>status_var := ''Connecting to device at '' @ ip @ ''...''\<rparr>))"
      obtain r s3 where u: "update_device_list (s2\<lparr>devices := dict_set ip d' (devices s2)\<rparr>) = (r, s3)"
        by (cases "update_device_list (s2\<lparr>devices := dict_set ip d' (devices s2)\<rparr>)")
      have d3: "devices s3 = dict_set ip d' (devices s)"
        using update_device_list_devicesD [OF u] by (simp add: s2_def)
      have "devices (manual_add_device ip single upd s) = devices s3"
        unfolding manual_add_device_def Let_def Inr Some sum.case option.case upd s2_def [symmetric] u prod.case
        by (cases r; cases "getattr_default (dev_alias d') (PyStr ip)") simp_all
      with d3 show ?thesis by (simp add: Inr Some upd)
    qed
  qed
qed

lemma await_all_counts:
  "await_all ctl ips (a, b, out) = (a', b', out') \<Longrightarrow>
     a' = a + length (filter (\<lambda>ip. ctl ip = None) ips)
     \<and> b' = b + length (filter (\<lambda>ip. ctl ip \<noteq> None) ips)"
proof (induction ips arbitrary: a b out)
  case Nil
  then show ?case by simp
next
  case (Cons ip ips)
  show ?case
  proof (cases "ctl ip")
    case None
    with Cons.prems Cons.IH [of "a + 1" b out] show ?thesis by simp
  next
    case (Some e)
    with Cons.prems Cons.IH [of a "b + 1"] show ?thesis by simp
  qed
qed

lemma refresh_device_fst [simp]: "fst (refresh_device upd p) = fst p"
  by (cases p) (simp add: refresh_device_def split: sum.splits)

lemma refresh_keys [simp]: "map (fst \<circ> refresh_device upd) xs = map fst xs"
  by (induction xs) simp_all

lemma hidden_rows_cong:
  "tree_items s' = tree_items s \<Longrightarrow> tree_children s' = tree_children s \<Longrightarrow> hidden_rows s' = hidden_rows s"
  by (simp add: hidden_rows_def)

lemma controlled_total: "controlled ctl ips + uncontrolled ctl ips = length ips"
  unfolding controlled_def uncontrolled_def
  using sum_length_filter_compl [of "\<lambda>ip. ctl ip = None" ips] by simp

lemma manual_add_device_reported_failed:
  assumes "single = Inr (Some d)" "upd ip d = Inr d'" "dev_alias d' = Raises e"
  shows "\<exists>e'. status_var (manual_add_device ip single upd s)
           = ''Failed to add device at '' @ ip @ '': '' @ exn_name e' @ '' - '' @ exn_text e'"
proof -
  define s2 where "s2 = issue [WaitFor OpUpdate ip 10] (issue [DiscoverSingle ip (credentials_arg s)]
                 (s\<lparr>status_var := ''Connecting to device at '' @ ip @ ''...''\<rparr>))"
  obtain r s3 where u: "update_device_list (s2\<lparr>devices := dict_set ip d' (devices s2)\<rparr>) = (r, s3)"
    by (cases "update_device_list (s2\<lparr>devices := dict_set ip d' (devices s2)\<rparr>)")
  have g: "getattr_default (dev_alias d') (PyStr ip) = Inl e"
    using assms(3) by (simp add: getattr_default_def)
  have run: "manual_add_device ip single upd s =
      (case r of Some e' \<Rightarrow> add_failed ip e' s3 | None \<Rightarrow> add_failed ip e s3)"
    unfolding manual_add_device_def Let_def assms(1,2) sum.case option.case s2_def [symmetric] u prod.case g
    by (cases r) simp_all
  show ?thesis
    unfolding run by (cases r) (auto simp: add_failed_def Let_def showerror_def print_def)
qed

text \<open>
  With rows hidden by the search filter, a manual add and a discovery end in their
  handlers after the dictionary has been written: the status line reports a failure and
  the dictionary holds the new entries.
\<close>

lemma manual_add_reported_failed_keeps_entry:
  "status_var (manual_add_device ''10.0.0.4'' (Inr (Some (plug ''Desk'' (Val (PyBool True)))))
       answers (type_search ''zzz'' three_shown))
     = ''Failed to add device at 10.0.0.4: TclError - Item 10.0.0.1 already exists''
   \<and> map fst (devices (manual_add_device ''10.0.0.4'' (Inr (Some (plug ''Desk'' (Val (PyBool True)))))
       answers (type_search ''zzz'' three_shown)))
     = [''10.0.0.1'', ''10.0.0.2'', ''10.0.0.3'', ''10.0.0.4'']"
  by code_simp

lemma discovery_reported_failed_replaces_mapping:
  "status_var (discover_devices (Inr later_found) answers (type_search ''zzz'' three_shown))
     = ''Discovery failed: Item 10.0.0.1 already exists''
   \<and> map fst (devices (discover_devices (Inr later_found) answers (type_search ''zzz'' three_shown)))
     = [''10.0.0.1'', ''10.0.0.3'']"
  by code_simp

subsection \<open>Statistics\<close>

lemma check_device_absent_signal:
  assumes "is_available d = Absent" "available d = Absent"
  shows "online (fst (check_device d c)) = online c + 1"
  using assms by (simp add: check_device_def availability_def Let_def split: attr.splits)

lemma check_device_counts_once:
  "online c + offline c + 1 \<le> online (fst (check_device d c)) + offline (fst (check_device d c))"
  by (simp add: check_device_def Let_def split: sum.splits attr.splits)

lemma check_device_counted_twice:
  assumes "availability d = Inr v" "truthy v" "is_on d = Raises e"
  shows "check_device d c = (c\<lparr>online := online c + 1, offline := offline c + 1\<rparr>, Some e)"
  using assms by (simp add: check_device_def Let_def)

lemma check_devices_online_absent_signal:
  assumes "\<forall>d \<in> set ds. is_available d = Absent \<and> available d = Absent"
  shows "online (fst (check_devices ds (c, out))) = online c + length ds"
  using assms
proof (induction ds arbitrary: c out)
  case Nil
  show ?case by simp
next
  case (Cons d ds)
  obtain c' r where cd: "check_device d c = (c', r)" by (cases "check_device d c")
  have "online c' = online c + 1"
    using check_device_absent_signal [of d c] Cons.prems cd by simp
  moreover have "\<forall>d \<in> set ds. is_available d = Absent \<and> available d = Absent"
    using Cons.prems by simp
  ultimately show ?case
    using Cons.IH [of c'] cd by (cases r) simp_all
qed

lemma check_devices_at_least_once:
  "online c + offline c + length ds
     \<le> online (fst (check_devices ds (c, out))) + offline (fst (check_devices ds (c, out)))"
proof (induction ds arbitrary: c out)
  case Nil
  show ?case by simp
next
  case (Cons d ds)
  obtain c' r where cd: "check_device d c = (c', r)" by (cases "check_device d c")
  have "online c + offline c + 1 \<le> online c' + offline c'"
    using check_device_counts_once [of c d] cd by simp
  moreover have "online c' + offline c' + length ds
     \<le> online (fst (check_devices (d # ds) (c, out))) + offline (fst (check_devices (d # ds) (c, out)))"
    using Cons.IH [of c'] cd by (cases r) simp_all
  ultimately show ?case by simp
qed

lemma check_devices_more_than_once:
  assumes "d \<in> set ds" "availability d = Inr v" "truthy v" "is_on d = Raises e"
  shows "online c + offline c + length ds
     < online (fst (check_devices ds (c, out))) + offline (fst (check_devices ds (c, out)))"
  using assms(1)
proof (induction ds arbitrary: c out)
  case Nil
  then show ?case by simp
next
  case (Cons x ds)
  obtain c' r where cd: "check_device x c = (c', r)" by (cases "check_device x c")
  have step: "check_devices (x # ds) (c, out) =
      check_devices ds (c', case r of None \<Rightarrow> out
                           | Some e \<Rightarrow> out @ [''Error checking device status: '' @ exn_text e])"
    using cd by (cases r) simp_all
  show ?case
  proof (cases "x = d")
    case True
    have "c' = c\<lparr>online := online c + 1, offline := offline c + 1\<rparr>"
      using check_device_counted_twice [OF assms(2-4), of c] cd True by simp
    then have "online c' + offline c' = online c + offline c + 2" by simp
    with check_devices_at_least_once [of c' ds] show ?thesis
      unfolding step by (simp add: Suc_le_eq [symmetric] le_trans)
  next
    case False
    with Cons.prems have "d \<in> set ds" by simp
    from Cons.IH [OF this, of c' "case r of None \<Rightarrow> out
                           | Some e \<Rightarrow> out @ [''Error checking device status: '' @ exn_text e]"]
      check_device_counts_once [of c x] cd show ?thesis
      unfolding step by simp
  qed
qed

lemma statistics_no_signal:
  assumes "\<forall>(ip, d) \<in> set devs. is_available d = Absent \<and> available d = Absent"
  shows "online (fst (snd (statistics devs))) = fst (statistics devs)"
proof -
  let ?c0 = "\<lparr>online = 0, offline = 0, active = 0\<rparr>"
  obtain c out where cs: "check_devices (map snd devs) (?c0, []) = (c, out)"
    by (cases "check_devices (map snd devs) (?c0, [])")
  have "\<forall>d \<in> set (map snd devs). is_available d = Absent \<and> available d = Absent"
    using assms by auto
  from check_devices_online_absent_signal [OF this, of ?c0 "[]"] cs
  have "online c = length devs" by simp
  then show ?thesis by (simp add: statistics_def Let_def cs)
qed

lemma availability_reachable:
  assumes "\<forall>e. is_available d \<noteq> Raises e"
    and "is_available d = Absent \<longrightarrow> (\<forall>e. available d \<noteq> Raises e)"
  shows "\<exists>v. availability d = Inr v \<and> truthy v = reachable d"
  using assms
  by (cases "is_available d"; cases "available d") (simp_all add: availability_def reachable_def)

lemma statistics_three_devices_readable:
  assumes "is_on a = Val (PyBool True)" and "is_on b = Val (PyBool False)"
    and "is_on c = Absent \<or> is_on c = Val PyNone"
    and "\<forall>d \<in> {a, b, c}. (\<forall>e. is_available d \<noteq> Raises e)
           \<and> (is_available d = Absent \<longrightarrow> (\<forall>e. available d \<noteq> Raises e))"
  shows "statistics [(ka, a), (kb, b), (kc, c)] =
           (3, \<lparr>online = length (filter reachable [a, b, c]),
                offline = length (filter (\<lambda>d. \<not> reachable d) [a, b, c]),
                active = 1\<rparr>, [])"
proof -
  obtain va where a: "availability a = Inr va" "truthy va = reachable a"
    using availability_reachable [of a] assms(4) by auto
  obtain vb where b: "availability b = Inr vb" "truthy vb = reachable b"
    using availability_reachable [of b] assms(4) by auto
  obtain vc where c: "availability c = Inr vc" "truthy vc = reachable c"
    using availability_reachable [of c] assms(4) by auto
  from assms(3) show ?thesis
  proof
    assume "is_on c = Absent"
    with assms(1,2) a b c show ?thesis
      by (simp add: statistics_def check_device_def Let_def)
  next
    assume "is_on c = Val PyNone"
    with assms(1,2) a b c show ?thesis
      by (simp add: statistics_def check_device_def Let_def)
  qed
qed

lemma statistics_three_devices_example:
  "statistics
     [(''10.0.0.1'', plug ''Lamp'' (Val (PyBool True))),
      (''10.0.0.2'', (plug ''Fan'' (Val (PyBool False)))\<lparr>available := Val (PyBool False)\<rparr>),
      (''10.0.0.3'', plug ''Heater'' Absent)]
     = (3, \<lparr>online = 2, offline = 1, active = 1\<rparr>, [])
   \<and> statistics three_found = (3, \<lparr>online = 3, offline = 0, active = 1\<rparr>, [])"
  by code_simp

subsection \<open>The search filter\<close>

lemma filter_row_children:
  "set (tree_children (filter_row t i s)) \<subseteq> insert i (set (tree_children s))"
  by (auto simp: filter_row_def Let_def)

lemma foldl_filter_row_children:
  "set xs \<subseteq> set (tree_children s) \<Longrightarrow>
     set (tree_children (foldl (\<lambda>s' i. filter_row t i s') s xs)) \<subseteq> set (tree_children s)"
proof (induction xs arbitrary: s rule: rev_induct)
  case Nil
  show ?case by simp
next
  case (snoc x xs)
  then have "set (tree_children (foldl (\<lambda>s' i. filter_row t i s') s xs)) \<subseteq> set (tree_children s)"
    and "x \<in> set (tree_children s)"
    by simp_all
  with filter_row_children [of t x "foldl (\<lambda>s' i. filter_row t i s') s xs"] show ?case
    by auto
qed

lemma on_search_changed_never_reattaches:
  "set (tree_children (on_search_changed s)) \<subseteq> set (tree_children s)"
  by (simp add: on_search_changed_def Let_def foldl_filter_row_children)

lemma on_search_changed_nothing_shown:
  "tree_children s = [] \<Longrightarrow> on_search_changed s = s"
  by (simp add: on_search_changed_def Let_def)

lemma filter_row_no_match:
  assumes "tree_item_values s i \<noteq> []"
    and "\<not> contains t (join '' '' (map lower (tree_item_values s i)))"
  shows "filter_row t i s = tree_detach i s"
  using assms by (simp add: filter_row_def Let_def)

lemma tree_item_values_cong:
  "tree_items s' = tree_items s \<Longrightarrow> tree_item_values s' i = tree_item_values s i"
  by (simp add: tree_item_values_def)

lemma foldl_filter_row_no_match:
  assumes "\<forall>i \<in> set xs. tree_item_values s i \<noteq> []
              \<and> \<not> contains t (join '' '' (map lower (tree_item_values s i)))"
  shows "tree_children (foldl (\<lambda>s' i. filter_row t i s') s xs)
           = filter (\<lambda>k. k \<notin> set xs) (tree_children s)"
  using assms
proof (induction xs arbitrary: s)
  case Nil
  show ?case by simp
next
  case (Cons x xs)
  have step: "filter_row t x s = tree_detach x s"
    using Cons.prems by (simp add: filter_row_no_match)
  have "\<forall>i \<in> set xs. tree_item_values (tree_detach x s) i \<noteq> []
              \<and> \<not> contains t (join '' '' (map lower (tree_item_values (tree_detach x s) i)))"
    using Cons.prems tree_item_values_cong [of "tree_detach x s" s] by simp
  from Cons.IH [OF this] show ?case
    by (auto simp: step removeAll_filter_not_eq intro: filter_cong)
qed

lemma search_without_match_hides_all:
  assumes "\<forall>i \<in> set (tree_children s). tree_item_values s i \<noteq> []
              \<and> \<not> contains q (join '' '' (map lower (tree_item_values s i)))"
    and "lower (search_var s) = q" and "q \<noteq> ''search devices...''"
  shows "tree_children (on_search_changed s) = []"
  using foldl_filter_row_no_match [OF assms(1)] assms(2,3)
  by (simp add: on_search_changed_def Let_def)

section \<open>The claims\<close>





text \<open>
  Claim C2, as amended. A batch over N devices issues one control call per device, each
  under its own time limit of 10 seconds, then a pause of one second, then one update
  call per device, whatever the control calls did. The numbers of completed and of failed
  control calls add up to N. A device whose update completes has the new state and the
  others keep theirs. In a window where no row is hidden (and the addresses of the
  dictionary are distinct, as in every dictionary), the list is drawn again with one row
  per device, and the status is \<open>All S devices turned A\<close> when no control call failed and
  \<open>S devices turned A, F failed\<close> otherwise: it names no device.
\<close>

theorem turn_all_devices_batch:
  "controlled ctl (map fst (devices s)) + uncontrolled ctl (map fst (devices s)) = length (devices s)
    \<and> calls (turn_all_devices turn_on ctl upd s) =
        calls s @ map (\<lambda>ip. WaitFor (if turn_on then OpTurnOn else OpTurnOff) ip 10) (map fst (devices s))
          @ Sleep 1 # map (\<lambda>ip. WaitFor OpUpdate ip 10) (map fst (devices s))
    \<and> devices (turn_all_devices turn_on ctl upd s) = map (refresh_device upd) (devices s)
    \<and> (hidden_rows s = [] \<and> distinct (map fst (devices s)) \<longrightarrow>
          tree_children (turn_all_devices turn_on ctl upd s) = map fst (devices s)
        \<and> tree_items (turn_all_devices turn_on ctl upd s) =
            map (\<lambda>(ip, d). (ip, shown_row ip d)) (map (refresh_device upd) (devices s))
        \<and> status_var (turn_all_devices turn_on ctl upd s) =
            (if uncontrolled ctl (map fst (devices s)) = 0
             then ''All '' @ str_nat (controlled ctl (map fst (devices s))) @ '' devices turned ''
                  @ (if turn_on then ''on'' else ''off'')
             else str_nat (controlled ctl (map fst (devices s))) @ '' devices turned ''
                  @ (if turn_on then ''on'' else ''off'') @ '', ''
                  @ str_nat (uncontrolled ctl (map fst (devices s))) @ '' failed''))"
proof -
  let ?ips = "map fst (devices s)"
  let ?action = "if turn_on then ''on'' else ''off''"
  define s1 where "s1 = s\<lparr>status_var := ''Turning all devices '' @ ?action @ ''...''\<rparr>"
  define s2 where "s2 = issue (map (\<lambda>ip. WaitFor (if turn_on then OpTurnOn else OpTurnOff) ip 10) ?ips) s1"
  obtain ok bad out where aw: "await_all ctl ?ips (0, 0, []) = (ok, bad, out)"
    by (cases "await_all ctl ?ips (0, 0, [])") auto
  define s3 where "s3 = issue (Sleep 1 # map (\<lambda>ip. WaitFor OpUpdate ip 10) ?ips) (s2\<lparr>stdout := stdout s2 @ out\<rparr>)"
  define s4 where "s4 = s3\<lparr>devices := map (refresh_device upd) (devices s3)\<rparr>"
  obtain r s5 where u: "update_device_list s4 = (r, s5)"
    by (cases "update_device_list s4")
  have d1: "devices s1 = devices s" by (simp add: s1_def)
  have d4: "devices s4 = map (refresh_device upd) (devices s)"
    by (simp add: s4_def s3_def s2_def s1_def)
  have c4: "calls s4 = calls s @ map (\<lambda>ip. WaitFor (if turn_on then OpTurnOn else OpTurnOff) ip 10) ?ips
          @ Sleep 1 # map (\<lambda>ip. WaitFor OpUpdate ip 10) ?ips"
    by (simp add: s4_def s3_def s2_def s1_def)
  have d5: "devices s5 = map (refresh_device upd) (devices s)" and c5: "calls s5 = calls s4"
    using update_device_list_fields [of s4] u by (simp_all add: d4)
  have counts: "ok = controlled ctl ?ips" "bad = uncontrolled ctl ?ips"
    using await_all_counts [OF aw] by (simp_all add: controlled_def uncontrolled_def)
  have run: "turn_all_devices turn_on ctl upd s =
      (case r of
         Some e \<Rightarrow> control_failed e s5
       | None \<Rightarrow>
           if bad = 0 then
             s5\<lparr>status_var := ''All '' @ str_nat ok @ '' devices turned '' @ ?action\<rparr>
           else
             s5\<lparr>status_var := str_nat ok @ '' devices turned '' @ ?action @ '', '' @ str_nat bad @ '' failed''\<rparr>)"
    unfolding turn_all_devices_def Let_def s1_def [symmetric] d1 s2_def [symmetric] aw prod.case
      s3_def [symmetric] s4_def [symmetric] u
    by (rule refl)
  have total: "controlled ctl ?ips + uncontrolled ctl ?ips = length (devices s)"
    using controlled_total [of ctl ?ips] by simp
  have issued: "calls (turn_all_devices turn_on ctl upd s) =
        calls s @ map (\<lambda>ip. WaitFor (if turn_on then OpTurnOn else OpTurnOff) ip 10) ?ips
          @ Sleep 1 # map (\<lambda>ip. WaitFor OpUpdate ip 10) ?ips"
    unfolding run using c5 c4 by (cases r; cases "bad = 0") simp_all
  have refreshed: "devices (turn_all_devices turn_on ctl upd s) = map (refresh_device upd) (devices s)"
    unfolding run using d5 by (cases r; cases "bad = 0") simp_all
  have drawn: "tree_children (turn_all_devices turn_on ctl upd s) = ?ips
        \<and> tree_items (turn_all_devices turn_on ctl upd s) =
            map (\<lambda>(ip, d). (ip, shown_row ip d)) (map (refresh_device upd) (devices s))
        \<and> status_var (turn_all_devices turn_on ctl upd s) =
            (if uncontrolled ctl ?ips = 0
             then ''All '' @ str_nat (controlled ctl ?ips) @ '' devices turned '' @ ?action
             else str_nat (controlled ctl ?ips) @ '' devices turned '' @ ?action @ '', ''
                  @ str_nat (uncontrolled ctl ?ips) @ '' failed'')"
    if shown: "hidden_rows s = []" and keys: "distinct (map fst (devices s))"
  proof -
    have h4: "hidden_rows s4 = []"
      using shown hidden_rows_cong [of s4 s] by (simp add: s4_def s3_def s2_def s1_def)
    have k4: "distinct (map fst (devices s4))"
      using keys by (simp add: d4)
    have r: "r = None" and ch: "tree_children s5 = ?ips"
      and it: "tree_items s5 = map (\<lambda>(ip, d). (ip, shown_row ip d)) (map (refresh_device upd) (devices s))"
      using update_device_list_redraws [OF h4 k4] update_device_list_rows [OF h4 k4] u
      by (simp_all add: d4)
    show ?thesis
      unfolding run r counts [symmetric] using ch it by (cases "bad = 0") simp_all
  qed
  from total issued refreshed drawn show ?thesis by blast
qed

theorem turn_all_devices_batch_witness:
  "hidden_rows three_shown = [] \<and> distinct (map fst (devices three_shown))
   \<and> status_var (turn_all_devices False first_times_out switched_off three_shown)
       = ''2 devices turned off, 1 failed''
   \<and> tree_children (turn_all_devices False first_times_out switched_off three_shown)
       = [''10.0.0.1'', ''10.0.0.2'', ''10.0.0.3'']
   \<and> map (\<lambda>(ip, it). (ip, item_values it ! 1)) (tree_items (turn_all_devices False first_times_out switched_off three_shown))
       = [(''10.0.0.1'', status_on), (''10.0.0.2'', status_off), (''10.0.0.3'', status_off)]"
proof -
  have h: "hidden_rows three_shown = []" by code_simp
  have k: "distinct (map fst (devices three_shown))" by code_simp
  have ips: "map fst (devices three_shown) = [''10.0.0.1'', ''10.0.0.2'', ''10.0.0.3'']" by code_simp
  have n: "controlled first_times_out [''10.0.0.1'', ''10.0.0.2'', ''10.0.0.3''] = 2"
    "uncontrolled first_times_out [''10.0.0.1'', ''10.0.0.2'', ''10.0.0.3''] = 1"
    "str_nat 2 = ''2''" "str_nat (Suc 0) = ''1''"
    by code_simp+
  have rows: "map (\<lambda>(ip, it). (ip, item_values it ! 1))
       (map (\<lambda>(ip, d). (ip, shown_row ip d)) (map (refresh_device switched_off) (devices three_shown)))
       = [(''10.0.0.1'', status_on), (''10.0.0.2'', status_off), (''10.0.0.3'', status_off)]"
    by code_simp
  from turn_all_devices_batch [of first_times_out three_shown False switched_off] h k rows
  show ?thesis by (simp add: ips n)
qed

text \<open>
  The claim as it was stated fails in two ways. For three devices with one timeout the
  status reads \<open>2 devices turned off, 1 failed\<close>, which is not the text the claim
  quotes. And when the search box has hidden the rows of the first and the third device,
  the same batch ends in the handler: drawing the list raises \<^verbatim>\<open>TclError\<close>, no row is
  shown and the status reports that error instead of the two numbers.
\<close>

theorem turn_all_devices_counterexample:
  "status_var (turn_all_devices False first_times_out switched_off three_shown)
     = ''2 devices turned off, 1 failed''
   \<and> status_var (turn_all_devices False first_times_out switched_off three_shown)
     \<noteq> ''2 turned off, 1 failed''
   \<and> tree_children (type_search ''fan'' three_shown) = [''10.0.0.2'']
   \<and> status_var (turn_all_devices False first_times_out switched_off (type_search ''fan'' three_shown))
     = ''Failed to control all devices: TclError - Item 10.0.0.1 already exists''
   \<and> tree_children (turn_all_devices False first_times_out switched_off (type_search ''fan'' three_shown))
     = []"
  by code_simp

text \<open>
  Claim C3. The program run on the failing input: three devices are shown; a query that
  matches no row hides all three; clearing the query then shows none of them again,
  although the three rows are still items of the tree and the three devices are still in
  the dictionary. A query that matches one row leaves that row, and clearing it afterwards
  brings back no other row.
\<close>

theorem search_clear_leaves_rows_hidden:
  "tree_children three_shown = [''10.0.0.1'', ''10.0.0.2'', ''10.0.0.3'']
   \<and> tree_children (type_search ''zzz'' three_shown) = []
   \<and> tree_children (type_search [] (type_search ''zzz'' three_shown)) = []
   \<and> hidden_rows (type_search [] (type_search ''zzz'' three_shown))
       = [''10.0.0.1'', ''10.0.0.2'', ''10.0.0.3'']
   \<and> map fst (devices (type_search [] (type_search ''zzz'' three_shown)))
       = [''10.0.0.1'', ''10.0.0.2'', ''10.0.0.3'']
   \<and> tree_children (type_search [] (type_search ''fan'' three_shown)) = [''10.0.0.2'']"
  by code_simp

text \<open>
  Claim C4. The program run on the failing input: three devices, the first on, the second
  off and not available, the third with an \<^verbatim>\<open>is_on\<close> whose read raises. By their
  reachability signals two devices are reachable and one is not; the statistics are
  total 3, active 1, online 2 and offline 2: the third device is counted as online and
  then, by the handler, as offline too. With no reachability signal on any device,
  online is 3, the total, and offline is 1.
\<close>

theorem statistics_raising_flag_counted_offline:
  "statistics three_with_raising_flag
     = (3, \<lparr>online = 2, offline = 2, active = 1\<rparr>, [''Error checking device status: no state''])
   \<and> map (\<lambda>(ip, d). reachable d) three_with_raising_flag = [True, False, True]
   \<and> statistics
       [(''10.0.0.1'', plug ''Lamp'' (Val (PyBool True))),
        (''10.0.0.2'', plug ''Fan'' (Val (PyBool False))),
        (''10.0.0.3'', plug ''Heater'' (Raises (Exn ''KasaException'' ''no state'')))]
     = (3, \<lparr>online = 3, offline = 1, active = 1\<rparr>, [''Error checking device status: no state''])"
  by code_simp

text \<open>
  Claim C5. When \<^verbatim>\<open>Discover.discover\<close> returns, the device dictionary becomes exactly
  the devices of that pass whose connectivity update completed, in the order found. An
  address that is not in the discovery result is afterwards neither in the dictionary nor
  among the rows shown, whatever the dictionary and the tree held before, and also when
  drawing the list raises afterwards.
\<close>

theorem discovery_replaces_mapping:
  "distinct (map fst devs) \<longrightarrow>
     devices (discover_devices (Inr devs) upd s) = working upd devs
     \<and> (\<forall>ip. ip \<notin> set (map fst devs) \<longrightarrow>
           ip \<notin> set (map fst (devices (discover_devices (Inr devs) upd s)))
         \<and> ip \<notin> set (tree_children (discover_devices (Inr devs) upd s)))"
proof
  assume d: "distinct (map fst devs)"
  let ?s' = "discover_devices (Inr devs) upd s"
  have m: "devices ?s' = working upd devs"
    using connect_all_working [OF d, of "[]" upd "[]"] by (simp add: discover_devices_mapping)
  have keys: "fst ` set (devices ?s') \<subseteq> fst ` set devs"
    unfolding m by (rule working_keys)
  have rows: "set (tree_children ?s') \<subseteq> fst ` set (devices ?s')"
    by (rule discover_devices_children)
  have "\<forall>ip. ip \<notin> set (map fst devs) \<longrightarrow>
           ip \<notin> set (map fst (devices ?s')) \<and> ip \<notin> set (tree_children ?s')"
  proof (intro allI impI)
    fix ip assume "ip \<notin> set (map fst devs)"
    then have "ip \<notin> fst ` set devs" by simp
    with keys have "ip \<notin> fst ` set (devices ?s')" by auto
    moreover from this rows have "ip \<notin> set (tree_children ?s')" by auto
    ultimately show "ip \<notin> set (map fst (devices ?s')) \<and> ip \<notin> set (tree_children ?s')"
      by simp
  qed
  with m show "devices ?s' = working upd devs
     \<and> (\<forall>ip. ip \<notin> set (map fst devs) \<longrightarrow>
           ip \<notin> set (map fst (devices ?s')) \<and> ip \<notin> set (tree_children ?s'))"
    by (intro conjI)
qed

theorem discovery_replaces_mapping_witness:
  "distinct (map fst later_found)
   \<and> map fst (devices three_shown) = [''10.0.0.1'', ''10.0.0.2'', ''10.0.0.3'']
   \<and> devices (discover_devices (Inr later_found) switched_off three_shown)
       = [(''10.0.0.3'', plug ''Heater'' (Val (PyBool False)))]
   \<and> ''10.0.0.2'' \<notin> set (map fst (devices (discover_devices (Inr later_found) switched_off three_shown)))
   \<and> ''10.0.0.2'' \<notin> set (tree_children (discover_devices (Inr later_found) switched_off three_shown))"
proof -
  have d: "distinct (map fst later_found)" by code_simp
  have old: "map fst (devices three_shown) = [''10.0.0.1'', ''10.0.0.2'', ''10.0.0.3'']" by code_simp
  have w: "working switched_off later_found = [(''10.0.0.3'', plug ''Heater'' (Val (PyBool False)))]"
    by code_simp
  have n: "''10.0.0.2'' \<notin> set (map fst later_found)" by code_simp
  from discovery_replaces_mapping [of later_found switched_off three_shown] d old w n
  show ?thesis by simp
qed

text \<open>
  Claim C6. The program run on the failing input: a device whose \<^verbatim>\<open>is_on\<close> raises is
  drawn with the label Unknown and the tag unknown, and drawing the list again returns
  normally. Once a query has hidden its row, drawing the list again raises \<^verbatim>\<open>TclError\<close>
  from the second \<^verbatim>\<open>insert\<close>, the one in the handler, and no row is shown for the device.
\<close>

theorem redraw_raises_on_hidden_row:
  "map (\<lambda>(ip, it). (ip, item_values it ! 1, item_tags it)) (tree_items one_unreadable)
     = [(''10.0.0.7'', status_unknown, [''unknown''])]
   \<and> tree_children one_unreadable = [''10.0.0.7'']
   \<and> fst (update_device_list one_unreadable) = None
   \<and> fst (update_device_list (type_search ''lamp'' one_unreadable))
       = Some (Exn ''TclError'' ''Item 10.0.0.7 already exists'')
   \<and> tree_children (snd (update_device_list (type_search ''lamp'' one_unreadable))) = []"
  by code_simp

text \<open>
  Claim C7. Drawing the list and applying the search filter leave the device dictionary
  as it is: the same addresses with the same device records in the same order, also when
  drawing the list raises. The filter leaves the items of the tree as they are too.
\<close>

theorem rendering_and_filtering_keep_devices:
  "devices (snd (update_device_list s)) = devices s
   \<and> devices (on_search_changed s) = devices s
   \<and> devices (type_search q s) = devices s
   \<and> tree_items (on_search_changed s) = tree_items s"
  by (simp add: type_search_def)

text \<open>
  Claim C8. A device whose availability reads as true and whose \<^verbatim>\<open>is_on\<close> raises an
  exception other than \<^verbatim>\<open>AttributeError\<close> adds one to online and one to offline. For every
  dictionary that holds such a device, online plus offline is greater than total.
\<close>

theorem statistics_counts_raising_device_twice:
  "(availability d = Inr v \<and> truthy v \<and> is_on d = Raises e \<longrightarrow>
      check_device d c = (c\<lparr>online := online c + 1, offline := offline c + 1\<rparr>, Some e))
   \<and> ((ip, d) \<in> set devs \<and> availability d = Inr v \<and> truthy v \<and> is_on d = Raises e \<longrightarrow>
        fst (statistics devs) = length devs
        \<and> fst (statistics devs)
            < online (fst (snd (statistics devs))) + offline (fst (snd (statistics devs))))"
proof (intro conjI impI)
  assume "availability d = Inr v \<and> truthy v \<and> is_on d = Raises e"
  then show "check_device d c = (c\<lparr>online := online c + 1, offline := offline c + 1\<rparr>, Some e)"
    by (simp add: check_device_counted_twice)
next
  assume a: "(ip, d) \<in> set devs \<and> availability d = Inr v \<and> truthy v \<and> is_on d = Raises e"
  show "fst (statistics devs) = length devs"
    by (simp add: statistics_def Let_def split: prod.splits)
  let ?c0 = "\<lparr>online = 0, offline = 0, active = 0\<rparr>"
  obtain c out where cs: "check_devices (map snd devs) (?c0, []) = (c, out)"
    by (cases "check_devices (map snd devs) (?c0, [])")
  from a have "d \<in> set (map snd devs)" by force
  from check_devices_more_than_once [OF this, of v e ?c0 "[]"] a cs
  have "length devs < online c + offline c" by simp
  then show "fst (statistics devs)
            < online (fst (snd (statistics devs))) + offline (fst (snd (statistics devs)))"
    by (auto simp: statistics_def Let_def cs)
qed

theorem statistics_counts_raising_device_twice_witness:
  "availability camera = Inr (PyBool True) \<and> is_on camera = Raises (Exn ''KasaException'' ''no state'')
   \<and> check_device camera \<lparr>online = 0, offline = 0, active = 0\<rparr>
       = (\<lparr>online = 1, offline = 1, active = 0\<rparr>, Some (Exn ''KasaException'' ''no state''))
   \<and> fst (statistics [(''10.0.0.9'', camera)]) = 1
   \<and> 1 < online (fst (snd (statistics [(''10.0.0.9'', camera)])))
          + offline (fst (snd (statistics [(''10.0.0.9'', camera)])))"
proof -
  have h: "availability camera = Inr (PyBool True)" "truthy (PyBool True)"
    "is_on camera = Raises (Exn ''KasaException'' ''no state'')"
    by (simp_all add: camera_def plug_def availability_def)
  from statistics_counts_raising_device_twice
    [of camera "PyBool True" "Exn ''KasaException'' ''no state''"
        "\<lparr>online = 0, offline = 0, active = 0\<rparr>" "''10.0.0.9''" "[(''10.0.0.9'', camera)]"] h
  show ?thesis by simp
qed

text \<open>
  Claim C9, as amended. When the loop handle is \<^verbatim>\<open>None\<close> or the loop is closed,
  \<^verbatim>\<open>run_async\<close> schedules nothing and raises nothing: it prints one line and leaves the
  rest of the state as it is. \<^verbatim>\<open>cleanup\<close> only asks an open loop to stop: the handle
  stays and the loop is not closed, so a coroutine submitted after \<^verbatim>\<open>cleanup\<close> is handed
  to the loop and nothing is printed.
\<close>

theorem run_async_without_loop:
  "(loop s = None \<or> (\<exists>l. loop s = Some l \<and> loop_closed l) \<longrightarrow>
      run_async co s = s\<lparr>stdout := stdout s @ [''Event loop not available'']\<rparr>)
   \<and> (loop t = Some l \<and> \<not> loop_closed l \<longrightarrow>
        loop (cleanup t) = Some (l\<lparr>stop_requested := True\<rparr>)
        \<and> run_async co (cleanup t)
            = t\<lparr>loop := Some (l\<lparr>stop_requested := True, submitted := submitted l @ [co]\<rparr>)\<rparr>)"
  by (auto simp: run_async_def cleanup_def print_def)

theorem run_async_without_loop_witness:
  "loop ((initial_gui no_credentials)\<lparr>loop := None\<rparr>) = None
   \<and> run_async CoRefresh ((initial_gui no_credentials)\<lparr>loop := None\<rparr>)
       = (initial_gui no_credentials)\<lparr>loop := None, stdout := [''Event loop not available'']\<rparr>
   \<and> loop (initial_gui no_credentials)
       = Some \<lparr>loop_closed = False, stop_requested = False, submitted = []\<rparr>
   \<and> loop (run_async CoRefresh (cleanup (initial_gui no_credentials)))
       = Some \<lparr>loop_closed = False, stop_requested = True, submitted = [CoRefresh]\<rparr>"
  using run_async_without_loop
    [of "(initial_gui no_credentials)\<lparr>loop := None\<rparr>" CoRefresh "initial_gui no_credentials"
        "\<lparr>loop_closed = False, stop_requested = False, submitted = []\<rparr>"]
  by (simp add: initial_gui_def)

text \<open>
  The claim as it was stated names the state after \<^verbatim>\<open>cleanup\<close> as one where the
  submission is dropped. It is not: from the window after start, the coroutine submitted
  after \<^verbatim>\<open>cleanup\<close> is queued on the loop and no diagnostic is printed.
\<close>

theorem run_async_after_cleanup_counterexample:
  "loop (cleanup (initial_gui no_credentials))
     = Some \<lparr>loop_closed = False, stop_requested = True, submitted = []\<rparr>
   \<and> loop (run_async CoDiscover (cleanup (initial_gui no_credentials)))
     = Some \<lparr>loop_closed = False, stop_requested = True, submitted = [CoDiscover]\<rparr>
   \<and> stdout (run_async CoDiscover (cleanup (initial_gui no_credentials))) = []"
  by code_simp

text \<open>
  Claim C10, as amended. When \<^verbatim>\<open>discover_single\<close> returns a device and its update
  completes, the dictionary is the old one with the entered address set to that device:
  the address maps to the device, the set of addresses gains at most that address, and the
  entries at all other addresses are the same, in the same order. When no device is
  returned, or \<^verbatim>\<open>discover_single\<close> or the update raises or times out, the dictionary
  is not changed. The entry is written before the list is drawn and the alias is read for
  the status line: when the alias read raises, the status line reports that the add
  failed and the entry stays.
\<close>

theorem manual_add_device_mapping:
  "(single = Inr (Some d) \<and> upd ip d = Inr d' \<longrightarrow>
      devices (manual_add_device ip single upd s) = dict_set ip d' (devices s)
      \<and> map_of (devices (manual_add_device ip single upd s)) ip = Some d'
      \<and> fst ` set (devices (manual_add_device ip single upd s)) = insert ip (fst ` set (devices s))
      \<and> length (devices (manual_add_device ip single upd s))
          = (if ip \<in> fst ` set (devices s) then length (devices s) else Suc (length (devices s)))
      \<and> filter (\<lambda>p. fst p \<noteq> ip) (devices (manual_add_device ip single upd s))
          = filter (\<lambda>p. fst p \<noteq> ip) (devices s))
   \<and> ((\<forall>d0 d1. single2 = Inr (Some d0) \<longrightarrow> upd2 ip2 d0 \<noteq> Inr d1) \<longrightarrow>
        devices (manual_add_device ip2 single2 upd2 s2) = devices s2)
   \<and> (single3 = Inr (Some d3) \<and> upd3 ip3 d3 = Inr d3' \<and> dev_alias d3' = Raises e3 \<longrightarrow>
        (\<exists>e'. status_var (manual_add_device ip3 single3 upd3 s3)
           = ''Failed to add device at '' @ ip3 @ '': '' @ exn_name e' @ '' - '' @ exn_text e')
        \<and> devices (manual_add_device ip3 single3 upd3 s3) = dict_set ip3 d3' (devices s3))"
proof (intro conjI impI)
  assume ok: "single = Inr (Some d) \<and> upd ip d = Inr d'"
  then have m: "devices (manual_add_device ip single upd s) = dict_set ip d' (devices s)"
    by (simp add: manual_add_device_devices)
  show "devices (manual_add_device ip single upd s) = dict_set ip d' (devices s)"
    by (rule m)
  show "map_of (devices (manual_add_device ip single upd s)) ip = Some d'"
    by (simp add: m map_of_dict_set)
  show "fst ` set (devices (manual_add_device ip single upd s)) = insert ip (fst ` set (devices s))"
    by (simp add: m dict_set_keys)
  show "length (devices (manual_add_device ip single upd s))
          = (if ip \<in> fst ` set (devices s) then length (devices s) else Suc (length (devices s)))"
    unfolding m by (rule dict_set_length)
  show "filter (\<lambda>p. fst p \<noteq> ip) (devices (manual_add_device ip single upd s))
          = filter (\<lambda>p. fst p \<noteq> ip) (devices s)"
    unfolding m by (rule dict_set_others)
next
  assume bad: "\<forall>d0 d1. single2 = Inr (Some d0) \<longrightarrow> upd2 ip2 d0 \<noteq> Inr d1"
  show "devices (manual_add_device ip2 single2 upd2 s2) = devices s2"
  proof (cases single2)
    case (Inl e)
    then show ?thesis by (simp add: manual_add_device_devices)
  next
    case (Inr od)
    show ?thesis
    proof (cases od)
      case None
      with Inr show ?thesis by (simp add: manual_add_device_devices)
    next
      case (Some d0)
      with Inr bad have "\<forall>d1. upd2 ip2 d0 \<noteq> Inr d1" by simp
      then obtain e where "upd2 ip2 d0 = Inl e" by (cases "upd2 ip2 d0") auto
      with Inr Some show ?thesis by (simp add: manual_add_device_devices)
    qed
  qed
next
  assume late: "single3 = Inr (Some d3) \<and> upd3 ip3 d3 = Inr d3' \<and> dev_alias d3' = Raises e3"
  then show "\<exists>e'. status_var (manual_add_device ip3 single3 upd3 s3)
           = ''Failed to add device at '' @ ip3 @ '': '' @ exn_name e' @ '' - '' @ exn_text e'"
    using manual_add_device_reported_failed [of single3 d3 upd3 ip3 d3' e3 s3] by simp
  from late show "devices (manual_add_device ip3 single3 upd3 s3) = dict_set ip3 d3' (devices s3)"
    by (simp add: manual_add_device_devices)
qed

theorem manual_add_device_mapping_witness:
  "devices (manual_add_device ''10.0.0.4'' (Inr (Some (plug ''Desk'' (Val (PyBool True))))) answers three_shown)
     = devices three_shown @ [(''10.0.0.4'', plug ''Desk'' (Val (PyBool True)))]
   \<and> devices (manual_add_device ''10.0.0.2'' (Inr (Some (plug ''Desk'' (Val (PyBool True))))) answers three_shown)
     = [(''10.0.0.1'', plug ''Lamp'' (Val (PyBool True))),
        (''10.0.0.2'', plug ''Desk'' (Val (PyBool True))),
        (''10.0.0.3'', plug ''Heater'' Absent)]
   \<and> devices (manual_add_device ''10.0.0.4'' (Inr (Some (plug ''Desk'' (Val (PyBool True))))) nobody three_shown)
     = devices three_shown
   \<and> devices (manual_add_device ''10.0.0.4'' (Inr None) answers three_shown) = devices three_shown
   \<and> devices (manual_add_device ''10.0.0.4'' (Inr (Some mute)) answers three_shown)
     = devices three_shown @ [(''10.0.0.4'', mute)]"
proof -
  let ?desk = "plug ''Desk'' (Val (PyBool True))"
  have old: "devices three_shown =
      [(''10.0.0.1'', plug ''Lamp'' (Val (PyBool True))),
       (''10.0.0.2'', plug ''Fan'' (Val (PyBool False))),
       (''10.0.0.3'', plug ''Heater'' Absent)]"
    by code_simp
  have ok: "Inr (Some ?desk) = Inr (Some ?desk) \<and> answers ''10.0.0.4'' ?desk = Inr ?desk"
    "Inr (Some ?desk) = Inr (Some ?desk) \<and> answers ''10.0.0.2'' ?desk = Inr ?desk"
    by (simp_all add: answers_def)
  have bad: "\<forall>d0 d1. (Inr (Some ?desk) :: exn + device option) = Inr (Some d0) \<longrightarrow> nobody ''10.0.0.4'' d0 \<noteq> Inr d1"
    "\<forall>d0 d1. (Inr None :: exn + device option) = Inr (Some d0) \<longrightarrow> answers ''10.0.0.4'' d0 \<noteq> Inr d1"
    by (simp_all add: nobody_def)
  have late: "Inr (Some mute) = Inr (Some mute) \<and> answers ''10.0.0.4'' mute = Inr mute
      \<and> dev_alias mute = Raises (Exn ''KasaException'' ''no alias'')"
    by (simp add: answers_def mute_def)
  from manual_add_device_mapping
      [of "Inr (Some ?desk)" ?desk answers "''10.0.0.4''" ?desk three_shown
          "Inr (Some ?desk)" nobody "''10.0.0.4''" three_shown
          "Inr (Some mute)" mute answers "''10.0.0.4''" mute "Exn ''KasaException'' ''no alias''" three_shown]
    manual_add_device_mapping
      [of "Inr (Some ?desk)" ?desk answers "''10.0.0.2''" ?desk three_shown
          "Inr None" answers "''10.0.0.4''" three_shown
          "Inr (Some mute)" mute answers "''10.0.0.4''" mute "Exn ''KasaException'' ''no alias''" three_shown]
    ok bad late
  show ?thesis by (simp add: old)
qed

text \<open>
  The claim as it was stated says that a failed add leaves the dictionary as it was. For
  a device whose alias raises, the program reports the add as failed, in the status line
  and in an error dialog, and the dictionary has the new entry.
\<close>

theorem manual_add_reported_failed_counterexample:
  "status_var (manual_add_device ''10.0.0.4'' (Inr (Some mute)) answers three_shown)
     = ''Failed to add device at 10.0.0.4: KasaException - no alias''
   \<and> alerts (manual_add_device ''10.0.0.4'' (Inr (Some mute)) answers three_shown)
     = [(''Add Device Error'', ''Failed to add device at 10.0.0.4:'' @ [CHR 0x0A] @ ''no alias'')]
   \<and> map fst (devices three_shown) = [''10.0.0.1'', ''10.0.0.2'', ''10.0.0.3'']
   \<and> map fst (devices (manual_add_device ''10.0.0.4'' (Inr (Some mute)) answers three_shown))
     = [''10.0.0.1'', ''10.0.0.2'', ''10.0.0.3'', ''10.0.0.4'']
   \<and> devices (manual_add_device ''10.0.0.4'' (Inr (Some mute)) answers three_shown)
     \<noteq> devices three_shown"
  by code_simp

end
